theory Spec2Isabelle
  imports Complex_Main "HOL-Library.Multiset"
begin

section \<open>JavaScript values used by the dashboard\<close>

text \<open>
  A JavaScript \<^verbatim>\<open>number\<close>: a double, or one of the three values that are not
  finite. A finite double is written as the real it stands for. The sum or quotient of
  two doubles is in general not a double: the platform rounds the exact result to the
  nearest double, and to an infinity when it is out of range. That rounding is not
  defined here; the arithmetic takes it as the parameter \<^verbatim>\<open>fl\<close>. Signed zero is not
  modelled.
\<close>

datatype number = Num real | Infinity | NegInfinity | NaN

text \<open>\<^verbatim>\<open>x + y\<close>.\<close>

fun num_add :: "(real \<Rightarrow> number) \<Rightarrow> number \<Rightarrow> number \<Rightarrow> number" where
  "num_add fl NaN y = NaN"
| "num_add fl x NaN = NaN"
| "num_add fl Infinity NegInfinity = NaN"
| "num_add fl NegInfinity Infinity = NaN"
| "num_add fl Infinity y = Infinity"
| "num_add fl x Infinity = Infinity"
| "num_add fl NegInfinity y = NegInfinity"
| "num_add fl x NegInfinity = NegInfinity"
| "num_add fl (Num a) (Num b) = fl (a + b)"

text \<open>
  One step of \<^verbatim>\<open>Math.max\<close>: the larger of two numbers, \<^verbatim>\<open>NaN\<close> if either is. The
  result is one of the arguments, so nothing is rounded.
\<close>

fun num_max :: "number \<Rightarrow> number \<Rightarrow> number" where
  "num_max NaN y = NaN"
| "num_max x NaN = NaN"
| "num_max Infinity y = Infinity"
| "num_max x Infinity = Infinity"
| "num_max NegInfinity y = y"
| "num_max x NegInfinity = x"
| "num_max (Num a) (Num b) = Num (max a b)"

text \<open>\<^verbatim>\<open>Math.max(...xs)\<close>: \<^verbatim>\<open>-Infinity\<close> when \<^verbatim>\<open>xs\<close> is empty.\<close>

definition Math_max :: "number list \<Rightarrow> number" where
  "Math_max xs = foldl num_max NegInfinity xs"

text \<open>\<^verbatim>\<open>x / n\<close> for a list length \<^verbatim>\<open>n\<close>.\<close>

fun num_div_length :: "(real \<Rightarrow> number) \<Rightarrow> number \<Rightarrow> nat \<Rightarrow> number" where
  "num_div_length fl NaN n = NaN"
| "num_div_length fl Infinity n = Infinity"
| "num_div_length fl NegInfinity n = NegInfinity"
| "num_div_length fl (Num a) n =
     (if n = 0 then (if a = 0 then NaN else if 0 < a then Infinity else NegInfinity)
      else fl (a / real n))"

text \<open>
  Strings are character lists. \<^verbatim>\<open>String.prototype.toLowerCase\<close> is the platform's:
  the functions that call it take it as the parameter \<^verbatim>\<open>toLowerCase\<close>. On text made
  of ASCII characters it is the function \<^verbatim>\<open>ascii_toLowerCase\<close>, which the examples use.
\<close>

definition ascii_lower_char :: "char \<Rightarrow> char" where
  "ascii_lower_char c =
     (let n = (of_char c :: nat) in if 65 \<le> n \<and> n \<le> 90 then char_of (n + 32) else c)"

definition ascii_toLowerCase :: "string \<Rightarrow> string" where
  "ascii_toLowerCase s = map ascii_lower_char s"

fun startsWith :: "string \<Rightarrow> string \<Rightarrow> bool" where
  "startsWith s [] = True"
| "startsWith [] (c # cs) = False"
| "startsWith (x # xs) (c # cs) = (x = c \<and> startsWith xs cs)"

text \<open>\<^verbatim>\<open>s.includes(sub)\<close>: \<^verbatim>\<open>sub\<close> occurs in \<^verbatim>\<open>s\<close>; the empty string occurs everywhere.\<close>

fun includes_str :: "string \<Rightarrow> string \<Rightarrow> bool" where
  "includes_str [] sub = (sub = [])"
| "includes_str (x # xs) sub = (startsWith (x # xs) sub \<or> includes_str xs sub)"

text \<open>\<^verbatim>\<open>s.split(sep)[0]\<close> for a one-character separator: the text before its first occurrence.\<close>

definition split_first :: "char \<Rightarrow> string \<Rightarrow> string" where
  "split_first sep s = takeWhile (\<lambda>c. c \<noteq> sep) s"

text \<open>\<^verbatim>\<open>parts.join(sep)\<close>.\<close>

fun join :: "string \<Rightarrow> string list \<Rightarrow> string" where
  "join sep [] = []"
| "join sep [s] = s"
| "join sep (s # t # ts) = s @ sep @ join sep (t # ts)"

text \<open>\<^verbatim>\<open>parts.filter(Boolean)\<close> on an array of strings and \<^verbatim>\<open>null\<close>: drops \<^verbatim>\<open>null\<close> and the empty string.\<close>

fun filter_Boolean :: "string option list \<Rightarrow> string list" where
  "filter_Boolean [] = []"
| "filter_Boolean (None # xs) = filter_Boolean xs"
| "filter_Boolean (Some s # xs) = (if s = [] then filter_Boolean xs else s # filter_Boolean xs)"

text \<open>The decimal text of a natural number, as a template literal prints a length.\<close>

definition digit_char :: "nat \<Rightarrow> char" where
  "digit_char d = ''0123456789'' ! d"

fun show_nat :: "nat \<Rightarrow> string" where
  "show_nat n = (if n < 10 then [digit_char n] else show_nat (n div 10) @ [digit_char (n mod 10)])"

declare show_nat.simps [simp del]

definition dquote :: char where
  "dquote = CHR 0x22"

text \<open>
  The clock read by a handler: \<^verbatim>\<open>Date.now()\<close> in milliseconds and
  \<^verbatim>\<open>new Date().toISOString()\<close>.
\<close>

record clock =
  now_ms :: nat
  now_iso :: string

section \<open>The entities (types.ts, useMockData.ts)\<close>

datatype PipelineStatus = Idle | Running | Completed | Failed

datatype Frequency = Manual | Hourly | Daily | Weekly

datatype BackoffStrategy = Linear | Exponential

record Notifications =
  n_email :: bool
  n_slack :: bool
  n_webhook :: "string option"

record Schedule =
  s_enabled :: bool
  s_frequency :: Frequency
  s_time :: "string option"

record Retries =
  r_enabled :: bool
  r_maxRetries :: number
  r_backoffStrategy :: BackoffStrategy

record Pipeline =
  p_id :: string
  p_name :: string
  p_description :: "string option"
  p_status :: PipelineStatus
  p_progress :: real
  p_created_at :: string
  p_last_run :: "string option"
  p_model_accuracy :: "number option"
  p_data_drift_score :: "real option"
  p_algorithm :: "string option"
  p_dataset_id :: "string option"
  p_hyperparameters :: "(string \<times> string) list option"
  p_notifications :: "Notifications option"
  p_schedule :: "Schedule option"
  p_retries :: "Retries option"

record Dataset =
  d_id :: string
  d_name :: string
  d_size :: number
  d_columns :: number
  d_null_percentage :: number
  d_created_at :: string

record ModelMetrics =
  m_accuracy :: real
  m_precision :: real
  m_recall :: real
  m_f1_score :: real
  m_auc_roc :: real
  m_training_time :: real

datatype ExperimentStatus = ERunning | ECompleted | EFailed

record Experiment =
  e_id :: string
  e_name :: string
  e_status :: ExperimentStatus
  e_algorithm :: string
  e_metrics :: ModelMetrics
  e_parameters :: "(string \<times> string) list"
  e_start_time :: string
  e_duration :: "real option"
  e_isNew :: "bool option"

datatype AlertType = Performance | Drift | Error

datatype Severity = Low | Medium | High

record Alert =
  a_id :: string
  a_type :: AlertType
  a_severity :: Severity
  a_message :: string
  a_timestamp :: string
  a_acknowledged :: bool

datatype ConnectionType = Rest_api | Database | Webhook

datatype ConnectionStatus = Connected | Disconnected | ConnError

record ExternalConnection =
  c_id :: string
  c_name :: string
  c_type :: ConnectionType
  c_url :: string
  c_status :: ConnectionStatus
  c_lastSync :: string
  c_recordCount :: number
  c_syncFrequency :: string
  c_created_at :: string

text \<open>
  The five collections held by one \<^verbatim>\<open>useMockData\<close> instance. A handler reads the
  collections of the current render and queues updater functions; the model applies
  the updaters, in the order the handler queues them, to the collections it read.
\<close>

record Store =
  pipelines :: "Pipeline list"
  datasets :: "Dataset list"
  alerts :: "Alert list"
  experiments :: "Experiment list"
  externalConnections :: "ExternalConnection list"

section \<open>deleteDataset (useMockData.ts)\<close>

definition relatedPipelines :: "string \<Rightarrow> Store \<Rightarrow> Pipeline list" where
  "relatedPipelines datasetId st = filter (\<lambda>p. p_dataset_id p = Some datasetId) (pipelines st)"

definition relatedExperiments ::
    "(string \<Rightarrow> string) \<Rightarrow> Dataset \<Rightarrow> string list \<Rightarrow> Store \<Rightarrow> Experiment list" where
  "relatedExperiments toLowerCase datasetToDelete relatedPipelineNames st =
     filter (\<lambda>e. list_ex (\<lambda>pipelineName.
                 includes_str (toLowerCase (e_name e)) (split_first CHR '' '' (toLowerCase pipelineName))
               \<or> includes_str (toLowerCase (e_name e))
                    (split_first CHR ''.'' (toLowerCase (d_name datasetToDelete))))
               relatedPipelineNames)
       (experiments st)"

definition relatedAlerts ::
    "(string \<Rightarrow> string) \<Rightarrow> Dataset \<Rightarrow> string list \<Rightarrow> Experiment list \<Rightarrow> Store \<Rightarrow> Alert list" where
  "relatedAlerts toLowerCase datasetToDelete relatedPipelineNames relExps st =
     filter (\<lambda>a. includes_str (toLowerCase (a_message a)) (toLowerCase (d_name datasetToDelete))
               \<or> list_ex (\<lambda>name. includes_str (toLowerCase (a_message a)) (toLowerCase name))
                    relatedPipelineNames
               \<or> list_ex (\<lambda>exp. includes_str (toLowerCase (a_message a)) (toLowerCase (e_name exp)))
                    relExps)
       (alerts st)"

definition relatedConnections :: "Dataset \<Rightarrow> Store \<Rightarrow> ExternalConnection list" where
  "relatedConnections datasetToDelete st =
     filter (\<lambda>c. includes_str (d_name datasetToDelete) (c_name c @ '' (External)''))
       (externalConnections st)"

definition deletionSummary :: "Dataset \<Rightarrow> nat \<Rightarrow> nat \<Rightarrow> nat \<Rightarrow> nat \<Rightarrow> string" where
  "deletionSummary datasetToDelete np ne na nc =
     join '', ''
       (filter_Boolean
          [Some (''Dataset '' @ [dquote] @ d_name datasetToDelete @ [dquote] @ '' deleted''),
           if 0 < np then Some (show_nat np @ '' related pipeline(s) removed'') else None,
           if 0 < ne then Some (show_nat ne @ '' related model(s) removed'') else None,
           if 0 < na then Some (show_nat na @ '' related alert(s) cleared'') else None,
           if 0 < nc then Some (show_nat nc @ '' related connection(s) removed'') else None])"

definition new_alert :: "clock \<Rightarrow> Severity \<Rightarrow> string \<Rightarrow> Alert" where
  "new_alert clk sev msg =
     \<lparr>a_id = ''alert_'' @ show_nat (now_ms clk), a_type = Performance, a_severity = sev,
      a_message = msg, a_timestamp = now_iso clk, a_acknowledged = False\<rparr>"

definition deleteDataset :: "(string \<Rightarrow> string) \<Rightarrow> clock \<Rightarrow> string \<Rightarrow> Store \<Rightarrow> Store" where
  "deleteDataset toLowerCase clk datasetId st =
     (case find (\<lambda>d. d_id d = datasetId) (datasets st) of
        None \<Rightarrow> st
      | Some datasetToDelete \<Rightarrow>
          (let relPipes = relatedPipelines datasetId st;
               relatedPipelineIds = map p_id relPipes;
               relatedPipelineNames = map p_name relPipes;
               relExps = relatedExperiments toLowerCase datasetToDelete relatedPipelineNames st;
               relatedExperimentIds = map e_id relExps;
               relatedAlertIds =
                 map a_id (relatedAlerts toLowerCase datasetToDelete relatedPipelineNames relExps st);
               relatedConnectionIds = map c_id (relatedConnections datasetToDelete st);
               pipelines1 =
                 (if 0 < length relatedPipelineIds
                  then filter (\<lambda>p. p_id p \<notin> set relatedPipelineIds) (pipelines st)
                  else pipelines st);
               experiments1 =
                 (if 0 < length relatedExperimentIds
                  then filter (\<lambda>e. e_id e \<notin> set relatedExperimentIds) (experiments st)
                  else experiments st);
               alerts1 =
                 (if 0 < length relatedAlertIds
                  then filter (\<lambda>a. a_id a \<notin> set relatedAlertIds) (alerts st)
                  else alerts st);
               connections1 =
                 (if 0 < length relatedConnectionIds
                  then filter (\<lambda>c. c_id c \<notin> set relatedConnectionIds) (externalConnections st)
                  else externalConnections st);
               datasets1 = filter (\<lambda>d. d_id d \<noteq> datasetId) (datasets st);
               summary =
                 deletionSummary datasetToDelete (length relatedPipelineIds)
                   (length relatedExperimentIds) (length relatedAlertIds)
                   (length relatedConnectionIds)
           in \<lparr>pipelines = pipelines1, datasets = datasets1,
               alerts = new_alert clk Medium summary # alerts1,
               experiments = experiments1, externalConnections = connections1\<rparr>))"

section \<open>mergeDatasets (useMockData.ts)\<close>

definition mergeDatasets ::
    "(real \<Rightarrow> number) \<Rightarrow> clock \<Rightarrow> string list \<Rightarrow> string \<Rightarrow> Store \<Rightarrow> Dataset \<times> Store" where
  "mergeDatasets fl clk datasetIds newName st =
     (let selectedDatasets = filter (\<lambda>d. d_id d \<in> set datasetIds) (datasets st);
          mergedDataset =
            \<lparr>d_id = ''dataset_'' @ show_nat (now_ms clk),
             d_name = newName,
             d_size = foldl (\<lambda>sum d. num_add fl sum (d_size d)) (Num 0) selectedDatasets,
             d_columns = Math_max (map d_columns selectedDatasets),
             d_null_percentage =
               num_div_length fl
                 (foldl (\<lambda>sum d. num_add fl sum (d_null_percentage d)) (Num 0) selectedDatasets)
                 (length selectedDatasets),
             d_created_at = now_iso clk\<rparr>
      in (mergedDataset,
          st\<lparr>datasets := mergedDataset # datasets st,
             alerts :=
               new_alert clk Low
                 (''Successfully merged '' @ show_nat (length selectedDatasets)
                    @ '' datasets into '' @ [dquote] @ newName @ [dquote])
               # alerts st\<rparr>))"

text \<open>The finite numbers, and the real they stand for.\<close>

fun is_Num :: "number \<Rightarrow> bool" where
  "is_Num (Num a) = True"
| "is_Num x = False"

fun num_val :: "number \<Rightarrow> real" where
  "num_val (Num a) = a"
| "num_val x = 0"

text \<open>
  A number is a double when rounding leaves it as it is; every number a store holds is
  one. The sum of a list of numbers is \<^verbatim>\<open>x1 + x2 + ... + xn\<close>, added from the left; its
  maximum is the largest; its mean is the sum divided by the length.
\<close>

fun is_double :: "(real \<Rightarrow> number) \<Rightarrow> number \<Rightarrow> bool" where
  "is_double fl (Num a) = (fl a = Num a)"
| "is_double fl x = True"

fun js_sum :: "(real \<Rightarrow> number) \<Rightarrow> number list \<Rightarrow> number" where
  "js_sum fl [] = Num 0"
| "js_sum fl (x # xs) = foldl (num_add fl) x xs"

fun js_maximum :: "number list \<Rightarrow> number" where
  "js_maximum [] = NegInfinity"
| "js_maximum (x # xs) = foldl num_max x xs"

definition js_mean :: "(real \<Rightarrow> number) \<Rightarrow> number list \<Rightarrow> number" where
  "js_mean fl xs = num_div_length fl (js_sum fl xs) (length xs)"

text \<open>Arithmetic in which no result needs rounding, as on the numbers of the examples.\<close>

definition exact :: "real \<Rightarrow> number" where
  "exact x = Num x"

section \<open>The persistent store adapter (useMockData.ts)\<close>

text \<open>
  \<^verbatim>\<open>localStorage\<close> is the browser's: a key-value table of strings whose access can be
  denied and whose capacity is limited. \<^verbatim>\<open>JSON.stringify\<close> and \<^verbatim>\<open>JSON.parse\<close> are the
  platform's too; they are taken as a parameter, each either returning or throwing.
\<close>

datatype js_error = SecurityError | QuotaExceededError | SyntaxError | TypeError

definition error_message :: "js_error \<Rightarrow> string" where
  "error_message e =
     (case e of
        SecurityError \<Rightarrow> ''The operation is insecure.''
      | QuotaExceededError \<Rightarrow> ''The quota has been exceeded.''
      | SyntaxError \<Rightarrow> ''Unexpected token in JSON''
      | TypeError \<Rightarrow> ''Converting circular structure to JSON'')"

record localStorage =
  ls_items :: "(string \<times> string) list"
  ls_denied :: bool
  ls_quota :: nat

definition storage_used :: "(string \<times> string) list \<Rightarrow> nat" where
  "storage_used items = sum_list (map (\<lambda>kv. length (fst kv) + length (snd kv)) items)"

definition getItem :: "localStorage \<Rightarrow> string \<Rightarrow> js_error + string option" where
  "getItem ls key = (if ls_denied ls then Inl SecurityError else Inr (map_of (ls_items ls) key))"

definition setItem :: "localStorage \<Rightarrow> string \<Rightarrow> string \<Rightarrow> js_error + localStorage" where
  "setItem ls key v =
     (if ls_denied ls then Inl SecurityError
      else (let items' = (key, v) # filter (\<lambda>kv. fst kv \<noteq> key) (ls_items ls)
            in if ls_quota ls < storage_used items' then Inl QuotaExceededError
               else Inr (ls\<lparr>ls_items := items'\<rparr>)))"

text \<open>Whether a text fits under a key within the quota.\<close>

definition has_room :: "localStorage \<Rightarrow> string \<Rightarrow> string \<Rightarrow> bool" where
  "has_room ls key v =
     (storage_used ((key, v) # filter (\<lambda>kv. fst kv \<noteq> key) (ls_items ls)) \<le> ls_quota ls)"

record 'a JSON =
  stringify :: "'a \<Rightarrow> js_error + string"
  parse :: "string \<Rightarrow> js_error + 'a"

text \<open>The browser state the adapter touches: the storage and what \<^verbatim>\<open>console.warn\<close> printed.\<close>

record browser =
  storage :: localStorage
  console_warn :: "(string \<times> js_error) list"

text \<open>The \<^verbatim>\<open>try\<close> block of \<^verbatim>\<open>saveToStorage\<close>.\<close>

definition saveToStorage_try :: "'a JSON \<Rightarrow> string \<Rightarrow> 'a \<Rightarrow> browser \<Rightarrow> js_error + browser" where
  "saveToStorage_try json key data br =
     (case stringify json data of
        Inl err \<Rightarrow> Inl err
      | Inr text \<Rightarrow>
          (case setItem (storage br) key text of
             Inl err \<Rightarrow> Inl err
           | Inr ls' \<Rightarrow> Inr (br\<lparr>storage := ls'\<rparr>)))"

definition saveToStorage :: "'a JSON \<Rightarrow> string \<Rightarrow> 'a \<Rightarrow> browser \<Rightarrow> browser" where
  "saveToStorage json key data br =
     (case saveToStorage_try json key data br of
        Inr br' \<Rightarrow> br'
      | Inl err \<Rightarrow>
          br\<lparr>console_warn := console_warn br @ [(''Failed to save to localStorage:'', err)]\<rparr>)"

text \<open>The \<^verbatim>\<open>try\<close> block of \<^verbatim>\<open>loadFromStorage\<close>; the empty string is falsy.\<close>

definition loadFromStorage_try :: "'a JSON \<Rightarrow> string \<Rightarrow> 'a \<Rightarrow> browser \<Rightarrow> js_error + 'a" where
  "loadFromStorage_try json key defaultValue br =
     (case getItem (storage br) key of
        Inl err \<Rightarrow> Inl err
      | Inr saved \<Rightarrow>
          (case saved of
             None \<Rightarrow> Inr defaultValue
           | Some text \<Rightarrow> if text = [] then Inr defaultValue else parse json text))"

definition loadFromStorage :: "'a JSON \<Rightarrow> string \<Rightarrow> 'a \<Rightarrow> browser \<Rightarrow> 'a \<times> browser" where
  "loadFromStorage json key defaultValue br =
     (case loadFromStorage_try json key defaultValue br of
        Inr v \<Rightarrow> (v, br)
      | Inl err \<Rightarrow>
          (defaultValue,
           br\<lparr>console_warn := console_warn br @ [(''Failed to load from localStorage:'', err)]\<rparr>))"

text \<open>
  A value is serializable when \<^verbatim>\<open>JSON.stringify\<close> returns a text for it that
  \<^verbatim>\<open>JSON.parse\<close> reads back as the same value. The text of a value is never empty.
\<close>

definition serializable :: "'a JSON \<Rightarrow> 'a \<Rightarrow> bool" where
  "serializable json x =
     (case stringify json x of
        Inl err \<Rightarrow> False
      | Inr text \<Rightarrow> text \<noteq> [] \<and> parse json text = Inr x)"

section \<open>The sync reconciler (DataSyncContext.tsx)\<close>

record SyncStatus =
  isOnline :: bool
  lastSync :: nat
  isSyncing :: bool
  pendingChanges :: nat
  syncErrors :: "string list"

definition markDataChanged :: "SyncStatus \<Rightarrow> SyncStatus" where
  "markDataChanged prev = prev\<lparr>pendingChanges := pendingChanges prev + 1\<rparr>"

text \<open>The two \<^verbatim>\<open>Math.random()\<close> results of one \<^verbatim>\<open>simulateServerSync\<close> call.\<close>

record call_draws =
  latency_draw :: real
  failure_draw :: real

text \<open>
  One simulated remote call: the delay after which it settles, and its outcome, the
  message of the thrown error or success.
\<close>

definition simulateServerSync :: "call_draws \<Rightarrow> string \<Rightarrow> real \<times> (string + unit)" where
  "simulateServerSync dr dataType =
     (500 + latency_draw dr * 1000,
      if failure_draw dr < 0.05
      then Inl (''Failed to sync '' @ dataType @ '': Network timeout'')
      else Inr ())"

text \<open>The data types for which \<^verbatim>\<open>triggerSync\<close> pushes a call, in the order it pushes them.\<close>

definition syncPromises :: "Store \<Rightarrow> string list" where
  "syncPromises mockData =
     (if 0 < length (pipelines mockData) then [''pipelines''] else [])
     @ (if 0 < length (datasets mockData) then [''datasets''] else [])
     @ (if 0 < length (alerts mockData) then [''alerts''] else [])
     @ (if 0 < length (experiments mockData) then [''experiments''] else [])
     @ (if 0 < length (externalConnections mockData) then [''external_connections''] else [])"

text \<open>
  All calls are started before any of them is awaited. Each settles after its own
  delay, calls of equal delay in the order they were started; \<^verbatim>\<open>Promise.allSettled\<close>
  waits for every one. The result lists the calls in the order they settle.
\<close>

definition settled_calls :: "(string \<Rightarrow> call_draws) \<Rightarrow> string list \<Rightarrow> (string \<times> real \<times> (string + unit)) list" where
  "settled_calls draws issued =
     sort_key (\<lambda>c. fst (snd c)) (map (\<lambda>dataType. (dataType, simulateServerSync (draws dataType) dataType)) issued)"

text \<open>The \<^verbatim>\<open>errors\<close> array: each \<^verbatim>\<open>catch\<close> handler pushes its message when its call rejects.\<close>

fun rejected_message :: "(string \<times> real \<times> (string + unit)) \<Rightarrow> string list" where
  "rejected_message (dataType, delay, Inl msg) = [msg]"
| "rejected_message (dataType, delay, Inr ok) = []"

definition sync_errors :: "(string \<Rightarrow> call_draws) \<Rightarrow> Store \<Rightarrow> string list" where
  "sync_errors draws mockData =
     concat (map rejected_message (settled_calls draws (syncPromises mockData)))"

text \<open>
  \<^verbatim>\<open>new Date(text).getTime()\<close> is the platform's: it is a parameter, \<^verbatim>\<open>None\<close> standing
  for \<^verbatim>\<open>NaN\<close>, with which every comparison is false.
\<close>

definition shouldShowSyncAlert :: "(string \<Rightarrow> nat option) \<Rightarrow> clock \<Rightarrow> localStorage \<Rightarrow> js_error + bool" where
  "shouldShowSyncAlert getTime clk ls =
     (case getItem ls ''ml_dashboard_last_sync_alert'' of
        Inl err \<Rightarrow> Inl err
      | Inr lastSyncAlert \<Rightarrow>
          (case lastSyncAlert of
             None \<Rightarrow> Inr True
           | Some text \<Rightarrow>
               if text = [] then Inr True
               else (case getTime text of
                       None \<Rightarrow> Inr False
                     | Some lastAlertTime \<Rightarrow>
                         Inr (int (24 * 60 * 60 * 1000) \<le> int (now_ms clk) - int lastAlertTime))))"

definition markSyncAlertShown :: "clock \<Rightarrow> localStorage \<Rightarrow> js_error + localStorage" where
  "markSyncAlertShown clk ls = setItem ls ''ml_dashboard_last_sync_alert'' (now_iso clk)"

definition sync_alert :: "clock \<Rightarrow> Alert" where
  "sync_alert clk =
     \<lparr>a_id = ''sync_'' @ show_nat (now_ms clk), a_type = Performance, a_severity = Low,
      a_message = ''All data synchronized successfully'', a_timestamp = now_iso clk,
      a_acknowledged = False\<rparr>"

text \<open>What the reconciler acts on, and what one cycle is given from outside.\<close>

record sync_world =
  syncStatus :: SyncStatus
  mockData :: Store
  localStore :: localStorage

record sync_env =
  draws :: "string \<Rightarrow> call_draws"
  during :: "SyncStatus \<Rightarrow> SyncStatus"
  finished :: clock
  getTime :: "string \<Rightarrow> nat option"

text \<open>
  The statements after the status update of a cycle without errors: the alert shown at
  most once a day. The result is the error thrown, if any, with the effects that had
  happened by then.
\<close>

definition success_alert :: "sync_env \<Rightarrow> Store \<Rightarrow> localStorage \<Rightarrow> js_error option \<times> Store \<times> localStorage" where
  "success_alert env md ls =
     (case shouldShowSyncAlert (getTime env) (finished env) ls of
        Inl err \<Rightarrow> (Some err, md, ls)
      | Inr show_it \<Rightarrow>
          if show_it then
            (let md' = md\<lparr>alerts := sync_alert (finished env) # alerts md\<rparr>
             in case markSyncAlertShown (finished env) ls of
                  Inl err \<Rightarrow> (Some err, md', ls)
                | Inr ls' \<Rightarrow> (None, md', ls'))
          else (None, md, ls))"

text \<open>
  One call of \<^verbatim>\<open>triggerSync\<close>. \<^verbatim>\<open>during\<close> stands for the status updates that other
  handlers queue while the calls are pending; the final update is applied to the status
  they leave.
\<close>

definition triggerSync :: "sync_env \<Rightarrow> sync_world \<Rightarrow> sync_world" where
  "triggerSync env w =
     (if isSyncing (syncStatus w) then w
      else
        (let started = (syncStatus w)\<lparr>isSyncing := True, syncErrors := []\<rparr>;
             errors = sync_errors (draws env) (mockData w);
             prev = during env started;
             completed = prev\<lparr>isSyncing := False,
                             lastSync := now_ms (finished env),
                             pendingChanges := (if 0 < length errors then pendingChanges prev else 0),
                             syncErrors := errors\<rparr>
         in if length errors = 0 then
              (case success_alert env (mockData w) (localStore w) of
                 (None, md', ls') \<Rightarrow> \<lparr>syncStatus = completed, mockData = md', localStore = ls'\<rparr>
               | (Some err, md', ls') \<Rightarrow>
                   \<lparr>syncStatus =
                      completed\<lparr>isSyncing := False,
                                syncErrors := syncErrors completed @ [''Sync failed: '' @ error_message err]\<rparr>,
                    mockData = md', localStore = ls'\<rparr>)
            else \<lparr>syncStatus = completed, mockData = mockData w, localStore = localStore w\<rparr>))"

section \<open>The pipeline run simulator (Pipelines view)\<close>

text \<open>The \<^verbatim>\<open>Math.random()\<close> results one tick may consume for one pipeline, in source order.\<close>

record tick_draws =
  progress_draw :: real
  variability_draw :: real
  final_draw :: real
  drift_draw :: real

text \<open>
  The two accuracy tables are object literals indexed with
  \<^verbatim>\<open>p.algorithm || 'random_forest'\<close>. Indexing finds a property of the literal itself,
  or else one that every object inherits from \<^verbatim>\<open>Object.prototype\<close>, or else
  \<^verbatim>\<open>undefined\<close>. The listed values are truthy and \<^verbatim>\<open>undefined\<close> is not, so
  \<^verbatim>\<open>|| dflt\<close> keeps a listed value and replaces \<^verbatim>\<open>undefined\<close> by the default. An
  inherited property is a function or an object: it is truthy and kept, and it is
  not a number, which is the result \<^verbatim>\<open>None\<close>.
\<close>

definition object_prototype_keys :: "string list" where
  "object_prototype_keys =
     [''constructor'', ''__defineGetter__'', ''__defineSetter__'', ''hasOwnProperty'',
      ''__lookupGetter__'', ''__lookupSetter__'', ''isPrototypeOf'', ''propertyIsEnumerable'',
      ''toString'', ''valueOf'', ''__proto__'', ''toLocaleString'']"

definition table_or_default :: "(string \<times> real) list \<Rightarrow> string \<Rightarrow> real \<Rightarrow> real option" where
  "table_or_default table key dflt =
     (case map_of table key of
        Some v \<Rightarrow> Some v
      | None \<Rightarrow> if key \<in> set object_prototype_keys then None else Some dflt)"

definition algorithm_key :: "string option \<Rightarrow> string" where
  "algorithm_key alg =
     (case alg of None \<Rightarrow> ''random_forest'' | Some a \<Rightarrow> if a = [] then ''random_forest'' else a)"

definition baseAccuracy :: "string option \<Rightarrow> real option" where
  "baseAccuracy alg =
     table_or_default
       [(''random_forest'', 0.85), (''logistic_regression'', 0.78), (''svm'', 0.82),
        (''gradient_boosting'', 0.87), (''neural_network'', 0.89), (''decision_tree'', 0.76),
        (''naive_bayes'', 0.73)] (algorithm_key alg) 0.8"

definition finalBaseAccuracy :: "string option \<Rightarrow> real option" where
  "finalBaseAccuracy alg =
     table_or_default
       [(''random_forest'', 0.89), (''logistic_regression'', 0.82), (''svm'', 0.85),
        (''gradient_boosting'', 0.91), (''neural_network'', 0.93), (''decision_tree'', 0.79),
        (''naive_bayes'', 0.76)] (algorithm_key alg) 0.85"

text \<open>
  The callback of \<^verbatim>\<open>prev.map\<close> inside the interval: the pipeline it returns, and
  whether it called \<^verbatim>\<open>clearInterval\<close>. Where the base accuracy is not a number, the
  product and the sum with it are \<^verbatim>\<open>NaN\<close> or a string that \<^verbatim>\<open>Math.min\<close> reads as
  \<^verbatim>\<open>NaN\<close>, and \<^verbatim>\<open>Math.min\<close> and \<^verbatim>\<open>Math.max\<close> of \<^verbatim>\<open>NaN\<close> are \<^verbatim>\<open>NaN\<close>. The
  arithmetic on the progress and on a base accuracy that is a number is written in the
  reals, without the rounding of the platform: what is proved of it are comparisons with
  whole numbers and with the bounds of \<^verbatim>\<open>Math.min\<close> and \<^verbatim>\<open>Math.max\<close>, which rounding to
  the nearest double keeps.
\<close>

definition tick_pipeline :: "string \<Rightarrow> clock \<Rightarrow> tick_draws \<Rightarrow> Pipeline \<Rightarrow> Pipeline \<times> bool" where
  "tick_pipeline pid clk dr p =
     (if p_id p = pid \<and> p_status p = Running then
        (let newProgress = min 100 (p_progress p + progress_draw dr * 10);
             newAccuracy =
               (if 20 < newProgress then
                  (let progressFactor = (newProgress - 20) / 80;
                       variability = (variability_draw dr - 0.5) * 0.1
                   in Some (case baseAccuracy (p_algorithm p) of
                              None \<Rightarrow> NaN
                            | Some base \<Rightarrow>
                                Num (max 0.5 (min 0.98
                                  (base * (0.7 + 0.3 * progressFactor) + variability)))))
                else p_model_accuracy p)
         in if 100 \<le> newProgress then
              (let finalAccuracy =
                     (case finalBaseAccuracy (p_algorithm p) of
                        None \<Rightarrow> NaN
                      | Some finalBase \<Rightarrow>
                          Num (max 0.75 (min 0.98 (finalBase + (final_draw dr - 0.5) * 0.08))));
                   driftScore = max 0.02 (min 0.35 (drift_draw dr * 0.25))
               in (p\<lparr>p_progress := 100, p_status := Completed,
                     p_model_accuracy := Some finalAccuracy,
                     p_data_drift_score := Some driftScore,
                     p_last_run := Some (now_iso clk)\<rparr>, True))
            else (p\<lparr>p_progress := newProgress, p_model_accuracy := newAccuracy\<rparr>, False))
      else (p, False))"

text \<open>
  One firing of the interval for pipeline \<^verbatim>\<open>pid\<close>: the updater mapped over the list,
  the pipeline at position \<^verbatim>\<open>i\<close> consuming the draws \<^verbatim>\<open>rnd i\<close>.
\<close>

definition interval_callback :: "string \<Rightarrow> clock \<Rightarrow> (nat \<Rightarrow> tick_draws) \<Rightarrow> Pipeline list \<Rightarrow> Pipeline list \<times> bool" where
  "interval_callback pid clk rnd prev =
     (let results = map (\<lambda>(i, p). tick_pipeline pid clk (rnd i) p) (enumerate 0 prev)
      in (map fst results, list_ex snd results))"

text \<open>
  The Pipelines view: its \<^verbatim>\<open>useMockData\<close> collections and the intervals that
  \<^verbatim>\<open>setInterval\<close> has scheduled and \<^verbatim>\<open>clearInterval\<close> has not cancelled, each with the
  pipeline id its callback closes over.
\<close>

record PipelinesView =
  store :: Store
  intervals :: "(nat \<times> string) list"
  next_interval :: nat

definition handleStartPipeline :: "string \<Rightarrow> PipelinesView \<Rightarrow> PipelinesView" where
  "handleStartPipeline pid v =
     (case find (\<lambda>p. p_id p = pid) (pipelines (store v)) of
        None \<Rightarrow> v
      | Some pipeline \<Rightarrow>
          \<lparr>store = (store v)\<lparr>pipelines :=
              map (\<lambda>p. if p_id p = pid
                        then p\<lparr>p_status := Running, p_progress := 0, p_model_accuracy := None\<rparr>
                        else p) (pipelines (store v))\<rparr>,
           intervals = intervals v @ [(next_interval v, pid)],
           next_interval = Suc (next_interval v)\<rparr>)"

definition interval_fire :: "nat \<Rightarrow> clock \<Rightarrow> (nat \<Rightarrow> tick_draws) \<Rightarrow> PipelinesView \<Rightarrow> PipelinesView" where
  "interval_fire h clk rnd v =
     (case map_of (intervals v) h of
        None \<Rightarrow> v
      | Some pid \<Rightarrow>
          (case interval_callback pid clk rnd (pipelines (store v)) of
             (ps', cleared) \<Rightarrow>
               v\<lparr>store := (store v)\<lparr>pipelines := ps'\<rparr>,
                 intervals := (if cleared then filter (\<lambda>t. fst t \<noteq> h) (intervals v)
                               else intervals v)\<rparr>))"

definition handleStopPipeline :: "string \<Rightarrow> PipelinesView \<Rightarrow> PipelinesView" where
  "handleStopPipeline pid v =
     v\<lparr>store := (store v)\<lparr>pipelines :=
          map (\<lambda>p. if p_id p = pid then p\<lparr>p_status := Idle\<rparr> else p) (pipelines (store v))\<rparr>\<rparr>"


section \<open>The training simulator (useMockData.ts)\<close>

text \<open>\<^verbatim>\<open>Math.round\<close>: the nearest integer, halves upwards.\<close>

definition Math_round :: "real \<Rightarrow> real" where
  "Math_round x = of_int \<lfloor>x + 1 / 2\<rfloor>"

record training_draws =
  duration_draw :: real
  accuracy_draw :: real
  precision_draw :: real
  recall_draw :: real

text \<open>The synchronous part of \<^verbatim>\<open>startModelTraining\<close>, and the callback of its timeout.\<close>

definition startModelTraining :: "string \<Rightarrow> Store \<Rightarrow> Store" where
  "startModelTraining experimentId st =
     st\<lparr>experiments :=
          map (\<lambda>e. if e_id e = experimentId then e\<lparr>e_status := ERunning\<rparr> else e) (experiments st)\<rparr>"

definition training_timeout :: "clock \<Rightarrow> (nat \<Rightarrow> training_draws) \<Rightarrow> string \<Rightarrow> Store \<Rightarrow> Store" where
  "training_timeout clk rnd experimentId st =
     st\<lparr>experiments :=
          map (\<lambda>(i, e).
                 if e_id e = experimentId then
                   e\<lparr>e_status := ECompleted,
                     e_duration := Some (Math_round (180 + duration_draw (rnd i) * 120)),
                     e_metrics := (e_metrics e)
                       \<lparr>m_accuracy :=
                          max 0.7 (min 0.95 (m_accuracy (e_metrics e) + (accuracy_draw (rnd i) - 0.5) * 0.1)),
                        m_precision :=
                          max 0.7 (min 0.95 (m_precision (e_metrics e) + (precision_draw (rnd i) - 0.5) * 0.08)),
                        m_recall :=
                          max 0.7 (min 0.95 (m_recall (e_metrics e) + (recall_draw (rnd i) - 0.5) * 0.08))\<rparr>\<rparr>
                 else e)
            (enumerate 0 (experiments st)),
        alerts := new_alert clk Low ''Model training completed successfully'' # alerts st\<rparr>"

section \<open>The cascade of deleteDataset, as the specification words it\<close>

text \<open>
  The pipelines, experiments, alerts and connections that deleting dataset \<^verbatim>\<open>D\<close> is
  said to take along. \<^verbatim>\<open>cascade_experiment_spec\<close> is the experiment clause as worded: the
  lower-cased name contains the first word of a removed pipeline's name, or the part
  of the dataset's name before its extension. \<^verbatim>\<open>cascade_experiment\<close> is that clause
  applied only when some pipeline is removed.
\<close>

definition cascade_pipeline :: "string \<Rightarrow> Pipeline \<Rightarrow> bool" where
  "cascade_pipeline datasetId p = (p_dataset_id p = Some datasetId)"

definition cascade_experiment_spec ::
    "(string \<Rightarrow> string) \<Rightarrow> Dataset \<Rightarrow> Pipeline list \<Rightarrow> Experiment \<Rightarrow> bool" where
  "cascade_experiment_spec toLowerCase D removed e =
     (list_ex (\<lambda>p. includes_str (toLowerCase (e_name e))
                      (split_first CHR '' '' (toLowerCase (p_name p)))) removed
      \<or> includes_str (toLowerCase (e_name e)) (split_first CHR ''.'' (toLowerCase (d_name D))))"

definition cascade_experiment ::
    "(string \<Rightarrow> string) \<Rightarrow> Dataset \<Rightarrow> Pipeline list \<Rightarrow> Experiment \<Rightarrow> bool" where
  "cascade_experiment toLowerCase D removed e =
     (removed \<noteq> [] \<and> cascade_experiment_spec toLowerCase D removed e)"

definition cascade_alert ::
    "(string \<Rightarrow> string) \<Rightarrow> Dataset \<Rightarrow> Pipeline list \<Rightarrow> Experiment list \<Rightarrow> Alert \<Rightarrow> bool" where
  "cascade_alert toLowerCase D removedP removedE a =
     (includes_str (toLowerCase (a_message a)) (toLowerCase (d_name D))
      \<or> list_ex (\<lambda>p. includes_str (toLowerCase (a_message a)) (toLowerCase (p_name p))) removedP
      \<or> list_ex (\<lambda>e. includes_str (toLowerCase (a_message a)) (toLowerCase (e_name e))) removedE)"

definition cascade_connection :: "Dataset \<Rightarrow> ExternalConnection \<Rightarrow> bool" where
  "cascade_connection D c = includes_str (d_name D) (c_name c @ '' (External)'')"

section \<open>The calls of a sync cycle\<close>

text \<open>The five collections in the order the reconciler visits them, and their sizes.\<close>

definition sync_collections :: "string list" where
  "sync_collections = [''pipelines'', ''datasets'', ''alerts'', ''experiments'', ''external_connections'']"

definition collection_length :: "Store \<Rightarrow> string \<Rightarrow> nat" where
  "collection_length md dataType =
     (if dataType = ''pipelines'' then length (pipelines md)
      else if dataType = ''datasets'' then length (datasets md)
      else if dataType = ''alerts'' then length (alerts md)
      else if dataType = ''experiments'' then length (experiments md)
      else if dataType = ''external_connections'' then length (externalConnections md)
      else 0)"

text \<open>Whether the call for a data type fails under the given draws, and the message it then leaves.\<close>

definition call_fails :: "(string \<Rightarrow> call_draws) \<Rightarrow> string \<Rightarrow> bool" where
  "call_fails dr dataType = (failure_draw (dr dataType) < 0.05)"

definition sync_failure_message :: "string \<Rightarrow> string" where
  "sync_failure_message dataType = ''Failed to sync '' @ dataType @ '': Network timeout''"

section \<open>Example states\<close>

definition ex_clock :: clock where
  "ex_clock = \<lparr>now_ms = 1700000000000, now_iso = ''2023-11-14T22:13:20.000Z''\<rparr>"

definition ex_sales :: Dataset where
  "ex_sales = \<lparr>d_id = ''d1'', d_name = ''sales.csv'', d_size = Num 1000, d_columns = Num 5,
     d_null_percentage = Num 2.5, d_created_at = ''2024-01-15T10:30:00Z''\<rparr>"

definition ex_customers :: Dataset where
  "ex_customers = \<lparr>d_id = ''d2'', d_name = ''customers.csv'', d_size = Num 500, d_columns = Num 8,
     d_null_percentage = Num 1.5, d_created_at = ''2024-01-16T10:30:00Z''\<rparr>"

definition ex_pipeline :: "string \<Rightarrow> string \<Rightarrow> string \<Rightarrow> PipelineStatus \<Rightarrow> real \<Rightarrow> Pipeline" where
  "ex_pipeline i n d s g =
     \<lparr>p_id = i, p_name = n, p_description = None, p_status = s, p_progress = g,
      p_created_at = ''2024-01-19T16:20:00Z'', p_last_run = None, p_model_accuracy = None,
      p_data_drift_score = None, p_algorithm = Some ''svm'', p_dataset_id = Some d,
      p_hyperparameters = None, p_notifications = None, p_schedule = None, p_retries = None\<rparr>"

definition ex_forecast :: Pipeline where
  "ex_forecast = ex_pipeline ''p1'' ''Sales Forecasting'' ''d1'' Idle 0"

definition ex_churn :: Pipeline where
  "ex_churn = ex_pipeline ''p2'' ''Churn Prediction'' ''d2'' Idle 0"

definition ex_experiment :: "string \<Rightarrow> string \<Rightarrow> Experiment" where
  "ex_experiment i n =
     \<lparr>e_id = i, e_name = n, e_status = ERunning, e_algorithm = ''svm'',
      e_metrics = \<lparr>m_accuracy = 0.8, m_precision = 0.8, m_recall = 0.8, m_f1_score = 0.8,
                   m_auc_roc = 0.8, m_training_time = 10\<rparr>,
      e_parameters = [], e_start_time = ''2024-01-18T10:00:00Z'', e_duration = None,
      e_isNew = None\<rparr>"

definition ex_model :: Experiment where
  "ex_model = ex_experiment ''e1'' ''sales model''"

definition ex_churn_model :: Experiment where
  "ex_churn_model = ex_experiment ''e2'' ''churn net''"

definition ex_alert :: "string \<Rightarrow> string \<Rightarrow> Alert" where
  "ex_alert i m =
     \<lparr>a_id = i, a_type = Performance, a_severity = Low, a_message = m,
      a_timestamp = ''2024-01-15T10:30:00Z'', a_acknowledged = False\<rparr>"

definition ex_alert_upload :: Alert where
  "ex_alert_upload = ex_alert ''alert_1'' ''Dataset sales.csv uploaded successfully''"

definition ex_alert_maint :: Alert where
  "ex_alert_maint = ex_alert ''alert_2'' ''Scheduled maintenance finished''"

definition ex_alert_same_id :: Alert where
  "ex_alert_same_id = ex_alert ''alert_1'' ''Scheduled maintenance finished''"

definition ex_crm :: ExternalConnection where
  "ex_crm = \<lparr>c_id = ''c1'', c_name = ''crm'', c_type = Rest_api, c_url = ''https://crm.example'',
     c_status = Connected, c_lastSync = ''2024-01-15T10:30:00Z'', c_recordCount = Num 1200,
     c_syncFrequency = ''hourly'', c_created_at = ''2024-01-15T10:30:00Z''\<rparr>"

text \<open>A store in which ids are unique, and one with no pipeline and two alerts of one id.\<close>

definition ex_shop :: Store where
  "ex_shop = \<lparr>pipelines = [ex_forecast, ex_churn], datasets = [ex_sales, ex_customers],
     alerts = [ex_alert_upload, ex_alert_maint], experiments = [ex_model, ex_churn_model],
     externalConnections = [ex_crm]\<rparr>"

definition ex_store :: Store where
  "ex_store = \<lparr>pipelines = [], datasets = [ex_sales],
     alerts = [ex_alert_upload, ex_alert_same_id], experiments = [ex_model],
     externalConnections = []\<rparr>"

text \<open>
  A fragment of the platform's JSON on arrays of booleans, and a browser whose storage
  works and one whose storage is denied.
\<close>

definition ex_json :: "bool list JSON" where
  "ex_json =
     \<lparr>stringify = (\<lambda>bs. if bs = [] then Inr ''[]''
                         else if bs = [True] then Inr ''[true]''
                         else if bs = [True, False] then Inr ''[true,false]''
                         else Inl TypeError),
      parse = (\<lambda>text. if text = ''[]'' then Inr []
                       else if text = ''[true]'' then Inr [True]
                       else if text = ''[true,false]'' then Inr [True, False]
                       else Inl SyntaxError)\<rparr>"

definition ex_browser :: browser where
  "ex_browser = \<lparr>storage = \<lparr>ls_items = [(''other'', ''[]'')], ls_denied = False, ls_quota = 5000000\<rparr>,
                  console_warn = []\<rparr>"

definition ex_browser_denied :: browser where
  "ex_browser_denied = \<lparr>storage = \<lparr>ls_items = [], ls_denied = True, ls_quota = 5000000\<rparr>,
                  console_warn = []\<rparr>"

text \<open>
  A reconciler state with pending changes and an old error, once with the storage
  denied; draws under which every call succeeds, and draws under which the datasets
  call fails.
\<close>

definition ex_status :: SyncStatus where
  "ex_status = \<lparr>isOnline = True, lastSync = 1699999000000, isSyncing = False,
                 pendingChanges = 3, syncErrors = [''Failed to sync alerts: Network timeout'']\<rparr>"

definition ex_world :: sync_world where
  "ex_world = \<lparr>syncStatus = ex_status, mockData = ex_shop,
                localStore = \<lparr>ls_items = [], ls_denied = False, ls_quota = 5000000\<rparr>\<rparr>"

definition ex_world_denied :: sync_world where
  "ex_world_denied = \<lparr>syncStatus = ex_status, mockData = ex_shop,
                localStore = \<lparr>ls_items = [], ls_denied = True, ls_quota = 5000000\<rparr>\<rparr>"

definition ex_env_ok :: sync_env where
  "ex_env_ok = \<lparr>draws = (\<lambda>dataType. \<lparr>latency_draw = 0.25, failure_draw = 0.5\<rparr>),
                 during = markDataChanged, finished = ex_clock, getTime = (\<lambda>s. None)\<rparr>"

definition ex_env_fail :: sync_env where
  "ex_env_fail = \<lparr>draws = (\<lambda>dataType. if dataType = ''datasets''
                                       then \<lparr>latency_draw = 0.75, failure_draw = 0.01\<rparr>
                                       else \<lparr>latency_draw = 0.25, failure_draw = 0.5\<rparr>),
                 during = markDataChanged, finished = ex_clock, getTime = (\<lambda>s. None)\<rparr>"

text \<open>
  The Pipelines view before any run, and with one run at 95 percent; draws that advance
  the progress by 2.5 and by 7.5.
\<close>

definition ex_view :: PipelinesView where
  "ex_view = \<lparr>store = ex_shop, intervals = [], next_interval = 0\<rparr>"

definition ex_view_running :: PipelinesView where
  "ex_view_running =
     \<lparr>store = ex_shop\<lparr>pipelines := [ex_pipeline ''p1'' ''Sales Forecasting'' ''d1'' Running 95]\<rparr>,
      intervals = [(0, ''p1'')], next_interval = 1\<rparr>"

definition ex_draws_low :: "nat \<Rightarrow> tick_draws" where
  "ex_draws_low i = \<lparr>progress_draw = 0.25, variability_draw = 0.5, final_draw = 0.5, drift_draw = 0.5\<rparr>"

definition ex_draws_high :: "nat \<Rightarrow> tick_draws" where
  "ex_draws_high i = \<lparr>progress_draw = 0.75, variability_draw = 0.5, final_draw = 0.5, drift_draw = 0.5\<rparr>"

definition ex_training_draws :: training_draws where
  "ex_training_draws = \<lparr>duration_draw = 0.5, accuracy_draw = 0.5, precision_draw = 0.5,
                         recall_draw = 0.5\<rparr>"

text \<open>A browser whose storage holds an older value and has no room for a longer one.\<close>

definition ex_browser_full :: browser where
  "ex_browser_full =
     \<lparr>storage = \<lparr>ls_items = [(''ml_dashboard_flags'', ''[true]'')], ls_denied = False,
                 ls_quota = 25\<rparr>,
      console_warn = []\<rparr>"

section \<open>Facts about lists and strings\<close>

lemma find_distinct_key:
  assumes "distinct (map f xs)" "x \<in> set xs"
  shows "find (\<lambda>y. f y = f x) xs = Some x"
  using assms by (induction xs) (auto simp: image_iff)

lemma filter_by_key:
  assumes "distinct (map f xs)"
  shows "filter (\<lambda>x. f x \<notin> set (map f (filter P xs))) xs = filter (\<lambda>x. \<not> P x) xs"
proof (rule filter_cong[OF refl])
  fix x assume x: "x \<in> set xs"
  have inj: "inj_on f (set xs)" using assms by (simp add: distinct_map)
  have "f x \<in> f ` {y \<in> set xs. P y} \<longleftrightarrow> P x"
    using x inj by (auto simp: inj_on_def)
  then show "(f x \<notin> set (map f (filter P xs))) = (\<not> P x)" by simp
qed

lemma guarded_filter_by_key:
  assumes "distinct (map f xs)"
  shows "(if 0 < length (map f (filter P xs))
          then filter (\<lambda>x. f x \<notin> set (map f (filter P xs))) xs else xs)
         = filter (\<lambda>x. \<not> P x) xs"
proof (cases "filter P xs = []")
  case True
  then have "\<forall>x\<in>set xs. \<not> P x" by (simp add: filter_empty_conv)
  then have "filter (\<lambda>x. \<not> P x) xs = xs" by simp
  with True show ?thesis by simp
next
  case False
  then show ?thesis using filter_by_key[OF assms, of P] by simp
qed

lemma filter_other_key:
  assumes "distinct (map f xs)" "x \<in> set xs"
  shows "filter (\<lambda>y. f y \<noteq> f x) xs = filter (\<lambda>y. y \<noteq> x) xs"
proof (rule filter_cong[OF refl])
  fix y assume "y \<in> set xs"
  with assms show "(f y \<noteq> f x) = (y \<noteq> x)"
    by (auto simp: distinct_map inj_on_def)
qed

lemma list_ex_or_const:
  "list_ex (\<lambda>x. A x \<or> B) xs \<longleftrightarrow> xs \<noteq> [] \<and> (list_ex A xs \<or> B)"
  by (induction xs) auto

lemma lower_examples:
  "ascii_toLowerCase ''Sales Forecasting'' = ''sales forecasting''"
  "ascii_toLowerCase ''Churn Prediction'' = ''churn prediction''"
  "ascii_toLowerCase ''sales.csv'' = ''sales.csv''"
  "ascii_toLowerCase ''sales model'' = ''sales model''"
  "ascii_toLowerCase ''churn net'' = ''churn net''"
  "ascii_toLowerCase ''Dataset sales.csv uploaded successfully'' = ''dataset sales.csv uploaded successfully''"
  "ascii_toLowerCase ''Scheduled maintenance finished'' = ''scheduled maintenance finished''"
  by code_simp+

lemma show_nat_examples:
  "show_nat (Suc 0) = ''1''" "show_nat 1700000000000 = ''1700000000000''"
  by (simp_all add: show_nat.simps digit_char_def)

section \<open>The cascade of deleteDataset\<close>

lemma relatedPipelines_cascade:
  "relatedPipelines datasetId st = filter (cascade_pipeline datasetId) (pipelines st)"
  by (simp add: relatedPipelines_def cascade_pipeline_def[abs_def])

lemma relatedExperiments_cascade:
  "relatedExperiments toLowerCase D (map p_name RP) st
     = filter (cascade_experiment toLowerCase D RP) (experiments st)"
  unfolding relatedExperiments_def cascade_experiment_def cascade_experiment_spec_def
  by (simp add: list_ex_or_const list_ex_iff)

lemma relatedAlerts_cascade:
  "relatedAlerts toLowerCase D (map p_name RP) RE st
     = filter (cascade_alert toLowerCase D RP RE) (alerts st)"
  unfolding relatedAlerts_def cascade_alert_def
  by (simp add: list_ex_iff)

lemma relatedConnections_cascade:
  "relatedConnections D st = filter (cascade_connection D) (externalConnections st)"
  by (simp add: relatedConnections_def cascade_connection_def[abs_def])

text \<open>
  C1, amended. In a store whose ids are unique within each collection, deleting a
  dataset \<^verbatim>\<open>D\<close> that is present removes \<^verbatim>\<open>D\<close> and exactly: the pipelines whose
  \<^verbatim>\<open>dataset_id\<close> is the id; when at least one pipeline is removed, the experiments whose
  lower-cased name contains the first word of a removed pipeline's lower-cased name or
  the part of the dataset's lower-cased name before its first dot (no experiment when
  no pipeline is removed); the alerts whose lower-cased message contains the lower-cased
  name of the dataset, of a removed pipeline or of a removed experiment; the connections
  \<^verbatim>\<open>c\<close> with \<^verbatim>\<open>c.name + " (External)"\<close> inside the dataset's name. Everything else stays,
  in its order, and one medium-severity alert whose message lists the non-zero counts
  of removed pipelines, experiments, alerts and connections is put in front of the
  remaining alerts. Lower-casing is \<^verbatim>\<open>String.prototype.toLowerCase\<close>; the statement
  holds whatever function on strings that is.
\<close>

theorem deleteDataset_cascade:
  assumes D: "D \<in> set (datasets st)" "d_id D = datasetId"
    and dd: "distinct (map d_id (datasets st))"
    and dp: "distinct (map p_id (pipelines st))"
    and de: "distinct (map e_id (experiments st))"
    and da: "distinct (map a_id (alerts st))"
    and dc: "distinct (map c_id (externalConnections st))"
    and RP: "RP = filter (cascade_pipeline datasetId) (pipelines st)"
    and RE: "RE = filter (cascade_experiment toLowerCase D RP) (experiments st)"
    and RA: "RA = filter (cascade_alert toLowerCase D RP RE) (alerts st)"
    and RC: "RC = filter (cascade_connection D) (externalConnections st)"
  shows "deleteDataset toLowerCase clk datasetId st =
     \<lparr>pipelines = filter (\<lambda>p. \<not> cascade_pipeline datasetId p) (pipelines st),
      datasets = filter (\<lambda>d. d \<noteq> D) (datasets st),
      alerts = new_alert clk Medium
                 (deletionSummary D (length RP) (length RE) (length RA) (length RC))
               # filter (\<lambda>a. \<not> cascade_alert toLowerCase D RP RE a) (alerts st),
      experiments = filter (\<lambda>e. \<not> cascade_experiment toLowerCase D RP e) (experiments st),
      externalConnections = filter (\<lambda>c. \<not> cascade_connection D c) (externalConnections st)\<rparr>"
proof -
  have found: "find (\<lambda>d. d_id d = datasetId) (datasets st) = Some D"
    using find_distinct_key[OF dd D(1)] D(2) by simp
  have ds: "filter (\<lambda>d. d_id d \<noteq> datasetId) (datasets st) = filter (\<lambda>d. d \<noteq> D) (datasets st)"
    using filter_other_key[OF dd D(1)] D(2) by simp
  show ?thesis
    unfolding deleteDataset_def found option.case Let_def
      relatedPipelines_cascade relatedExperiments_cascade relatedAlerts_cascade
      relatedConnections_cascade RP[symmetric]
    unfolding RP RE RA RC
      guarded_filter_by_key[OF dp] guarded_filter_by_key[OF de] guarded_filter_by_key[OF da]
      guarded_filter_by_key[OF dc] ds
    by simp
qed

lemma ex_shop_pipelines:
  "filter (cascade_pipeline ''d1'') (pipelines ex_shop) = [ex_forecast]"
  "filter (\<lambda>p. \<not> cascade_pipeline ''d1'' p) (pipelines ex_shop) = [ex_churn]"
  by (simp_all add: ex_shop_def cascade_pipeline_def ex_forecast_def ex_churn_def ex_pipeline_def)

lemma ex_shop_experiments:
  "cascade_experiment ascii_toLowerCase ex_sales [ex_forecast] ex_model"
  "\<not> cascade_experiment ascii_toLowerCase ex_sales [ex_forecast] ex_churn_model"
  by (simp_all add: cascade_experiment_def cascade_experiment_spec_def ex_sales_def
      ex_forecast_def ex_pipeline_def ex_model_def ex_churn_model_def ex_experiment_def
      lower_examples split_first_def)

lemma ex_shop_alerts:
  "cascade_alert ascii_toLowerCase ex_sales [ex_forecast] [ex_model] ex_alert_upload"
  "\<not> cascade_alert ascii_toLowerCase ex_sales [ex_forecast] [ex_model] ex_alert_maint"
  by (simp_all add: cascade_alert_def ex_sales_def
      ex_forecast_def ex_pipeline_def ex_model_def ex_experiment_def
      ex_alert_upload_def ex_alert_maint_def ex_alert_def lower_examples)

lemma ex_shop_connections:
  "\<not> cascade_connection ex_sales ex_crm"
  by (simp add: cascade_connection_def ex_sales_def ex_crm_def)

theorem deleteDataset_cascade_witness:
  "deleteDataset ascii_toLowerCase ex_clock ''d1'' ex_shop =
     \<lparr>pipelines = [ex_churn], datasets = [ex_customers],
      alerts = [new_alert ex_clock Medium
                  (''Dataset '' @ [dquote] @ ''sales.csv'' @ [dquote]
                   @ '' deleted, 1 related pipeline(s) removed, 1 related model(s) removed, 1 related alert(s) cleared''),
                ex_alert_maint],
      experiments = [ex_churn_model], externalConnections = [ex_crm]\<rparr>"
proof -
  have ids: "distinct (map d_id (datasets ex_shop))" "distinct (map p_id (pipelines ex_shop))"
    "distinct (map e_id (experiments ex_shop))" "distinct (map a_id (alerts ex_shop))"
    "distinct (map c_id (externalConnections ex_shop))"
    by (simp_all add: ex_shop_def ex_sales_def ex_customers_def ex_forecast_def ex_churn_def
        ex_pipeline_def ex_model_def ex_churn_model_def ex_experiment_def ex_alert_upload_def
        ex_alert_maint_def ex_alert_def)
  have D: "ex_sales \<in> set (datasets ex_shop)" "d_id ex_sales = ''d1''"
    by (simp_all add: ex_shop_def ex_sales_def)
  have RE: "filter (cascade_experiment ascii_toLowerCase ex_sales [ex_forecast]) (experiments ex_shop)
             = [ex_model]"
    and RE': "filter (\<lambda>e. \<not> cascade_experiment ascii_toLowerCase ex_sales [ex_forecast] e)
                (experiments ex_shop)
               = [ex_churn_model]"
    using ex_shop_experiments by (simp_all add: ex_shop_def)
  have RA: "filter (cascade_alert ascii_toLowerCase ex_sales [ex_forecast] [ex_model]) (alerts ex_shop)
             = [ex_alert_upload]"
    and RA': "filter (\<lambda>a. \<not> cascade_alert ascii_toLowerCase ex_sales [ex_forecast] [ex_model] a)
                (alerts ex_shop)
               = [ex_alert_maint]"
    using ex_shop_alerts by (simp_all add: ex_shop_def)
  have RC: "filter (cascade_connection ex_sales) (externalConnections ex_shop) = []"
    and RC': "filter (\<lambda>c. \<not> cascade_connection ex_sales c) (externalConnections ex_shop) = [ex_crm]"
    using ex_shop_connections by (simp_all add: ex_shop_def)
  have ds: "filter (\<lambda>d. d \<noteq> ex_sales) (datasets ex_shop) = [ex_customers]"
    by (simp add: ex_shop_def ex_sales_def ex_customers_def)
  have msg: "deletionSummary ex_sales (Suc 0) (Suc 0) (Suc 0) 0 =
      ''Dataset '' @ [dquote] @ ''sales.csv'' @ [dquote]
      @ '' deleted, 1 related pipeline(s) removed, 1 related model(s) removed, 1 related alert(s) cleared''"
    by (simp add: deletionSummary_def show_nat_examples ex_sales_def)
  show ?thesis
    using deleteDataset_cascade[where toLowerCase=ascii_toLowerCase and clk=ex_clock,
        OF D ids refl refl refl refl]
    by (simp add: ex_shop_pipelines RE RE' RA RA' RC RC' ds msg)
qed

text \<open>
  The claim as worded fails on a store with no pipeline on the dataset and two alerts
  of one id: the experiment \<^verbatim>\<open>sales model\<close> contains the dataset's stem \<^verbatim>\<open>sales\<close> and is
  kept, and the alert that mentions nothing of the cascade is removed with the alert
  whose id it shares.
\<close>

lemma ex_store_find: "find (\<lambda>d. d_id d = ''d1'') (datasets ex_store) = Some ex_sales"
  by (simp add: ex_store_def ex_sales_def)

lemma ex_store_related:
  "relatedPipelines ''d1'' ex_store = []"
  "relatedExperiments ascii_toLowerCase ex_sales [] ex_store = []"
  "relatedAlerts ascii_toLowerCase ex_sales [] [] ex_store = [ex_alert_upload]"
  "relatedConnections ex_sales ex_store = []"
  by (simp_all add: relatedPipelines_def relatedExperiments_def relatedAlerts_def
      relatedConnections_def ex_store_def ex_sales_def ex_alert_upload_def ex_alert_same_id_def
      ex_alert_def lower_examples)

theorem deleteDataset_cascade_counterexample:
  "cascade_experiment_spec ascii_toLowerCase ex_sales (filter (cascade_pipeline ''d1'') (pipelines ex_store)) ex_model
   \<and> experiments (deleteDataset ascii_toLowerCase ex_clock ''d1'' ex_store) = [ex_model]
   \<and> \<not> cascade_alert ascii_toLowerCase ex_sales [] [ex_model] ex_alert_same_id
   \<and> ex_alert_same_id \<in> set (alerts ex_store)
   \<and> alerts (deleteDataset ascii_toLowerCase ex_clock ''d1'' ex_store)
       = [new_alert ex_clock Medium (deletionSummary ex_sales 0 0 1 0)]"
proof -
  have a: "cascade_experiment_spec ascii_toLowerCase ex_sales (filter (cascade_pipeline ''d1'') (pipelines ex_store)) ex_model"
    by (simp add: cascade_experiment_spec_def ex_store_def ex_sales_def ex_model_def
        ex_experiment_def lower_examples split_first_def)
  have b: "experiments (deleteDataset ascii_toLowerCase ex_clock ''d1'' ex_store) = [ex_model]"
    by (simp add: deleteDataset_def ex_store_find ex_store_related Let_def) (simp add: ex_store_def)
  have c: "\<not> cascade_alert ascii_toLowerCase ex_sales [] [ex_model] ex_alert_same_id"
    by (simp add: cascade_alert_def ex_sales_def ex_model_def ex_experiment_def
        ex_alert_same_id_def ex_alert_def lower_examples)
  have d: "ex_alert_same_id \<in> set (alerts ex_store)"
    by (simp add: ex_store_def)
  have e: "alerts (deleteDataset ascii_toLowerCase ex_clock ''d1'' ex_store)
       = [new_alert ex_clock Medium (deletionSummary ex_sales 0 0 1 0)]"
    by (simp add: deleteDataset_def ex_store_find ex_store_related Let_def)
       (simp add: ex_store_def ex_alert_upload_def ex_alert_same_id_def ex_alert_def)
  from a b c d e show ?thesis by blast
qed

section \<open>Deleting an unknown dataset\<close>

text \<open>
  C10. When no dataset of the collection has the given id, \<^verbatim>\<open>deleteDataset\<close> returns at
  its guard: the five collections, the alerts among them, are exactly what they were,
  and no summary alert is added.
\<close>

theorem deleteDataset_unknown_id_noop:
  assumes "datasetId \<notin> set (map d_id (datasets st))"
  shows "deleteDataset toLowerCase clk datasetId st = st"
proof -
  have "find (\<lambda>d. d_id d = datasetId) (datasets st) = None"
    using assms by (auto simp: find_None_iff)
  then show ?thesis
    by (simp add: deleteDataset_def)
qed

theorem deleteDataset_unknown_id_noop_witness:
  "''d9'' \<notin> set (map d_id (datasets ex_shop))
   \<and> deleteDataset ascii_toLowerCase ex_clock ''d9'' ex_shop = ex_shop"
proof -
  have h: "''d9'' \<notin> set (map d_id (datasets ex_shop))"
    by (simp add: ex_shop_def ex_sales_def ex_customers_def)
  show ?thesis
    using h deleteDataset_unknown_id_noop[where toLowerCase=ascii_toLowerCase and clk=ex_clock, OF h]
    by simp
qed

section \<open>mergeDatasets: sum, maximum and mean\<close>

lemma num_add_zero: "is_double fl x \<Longrightarrow> num_add fl (Num 0) x = x"
  by (cases x) simp_all

lemma num_max_NegInfinity [simp]: "num_max NegInfinity x = x"
  by (cases x) simp_all

lemma is_Num_iff: "is_Num x \<longleftrightarrow> (\<exists>a. x = Num a)"
  by (cases x) simp_all

lemma is_Num_val: "is_Num x \<Longrightarrow> x = Num (num_val x)"
  by (cases x) simp_all

lemma foldl_from_zero:
  assumes "xs \<noteq> []" "is_double fl (hd xs)"
  shows "foldl (num_add fl) (Num 0) xs = js_sum fl xs"
  using assms by (cases xs) (simp_all add: num_add_zero)

lemma Math_max_js: "Math_max xs = js_maximum xs"
  by (cases xs) (simp_all add: Math_max_def)

text \<open>When every partial sum is a double, the additions are exact.\<close>

lemma foldl_num_add_exact:
  assumes "\<forall>x\<in>set xs. is_Num x"
    and "\<forall>k. 0 < k \<and> k \<le> length xs
           \<longrightarrow> fl (a + sum_list (map num_val (take k xs)))
               = Num (a + sum_list (map num_val (take k xs)))"
  shows "foldl (num_add fl) (Num a) xs = Num (a + sum_list (map num_val xs))"
  using assms
proof (induction xs arbitrary: a)
  case Nil
  then show ?case by simp
next
  case (Cons x xs)
  from Cons.prems(1) obtain b where b: "x = Num b" by (auto simp: is_Num_iff)
  from Cons.prems(2)[rule_format, of 1] have first: "fl (a + b) = Num (a + b)"
    by (simp add: b)
  have rest: "\<forall>k. 0 < k \<and> k \<le> length xs
           \<longrightarrow> fl ((a + b) + sum_list (map num_val (take k xs)))
               = Num ((a + b) + sum_list (map num_val (take k xs)))"
  proof (intro allI impI)
    fix k assume "0 < k \<and> k \<le> length xs"
    then have "0 < Suc k \<and> Suc k \<le> length (x # xs)" by simp
    from Cons.prems(2)[rule_format, OF this]
    show "fl ((a + b) + sum_list (map num_val (take k xs)))
               = Num ((a + b) + sum_list (map num_val (take k xs)))"
      by (simp add: b add.assoc)
  qed
  have "foldl (num_add fl) (Num a) (x # xs) = foldl (num_add fl) (Num (a + b)) xs"
    by (simp add: b first)
  also have "\<dots> = Num ((a + b) + sum_list (map num_val xs))"
    using Cons.prems(1) by (intro Cons.IH rest) simp
  finally show ?case by (simp add: b add.assoc)
qed

lemma foldl_num_max_finite:
  assumes "\<forall>x\<in>set xs. is_Num x"
  shows "foldl num_max (Num m) xs = Num (Max (insert m (num_val ` set xs)))"
  using assms
proof (induction xs arbitrary: m)
  case Nil
  then show ?case by simp
next
  case (Cons x xs)
  then obtain b where b: "x = Num b" by (auto simp: is_Num_iff)
  then have step: "num_max (Num m) x = Num (max m (num_val x))" by simp
  have "Max (insert (max m (num_val x)) (num_val ` set xs))
        = Max (insert m (insert (num_val x) (num_val ` set xs)))"
    by (cases "set xs = {}") (simp_all add: max.assoc)
  with Cons step show ?case by simp
qed

lemma Math_max_finite:
  assumes "xs \<noteq> []" "\<forall>x\<in>set xs. is_Num x"
  shows "Math_max xs = Num (Max (num_val ` set xs))"
proof (cases xs)
  case Nil
  with assms show ?thesis by simp
next
  case (Cons x ys)
  with assms have x: "x = Num (num_val x)" and ys: "\<forall>y\<in>set ys. is_Num y"
    by (simp_all add: is_Num_val)
  have "Math_max xs = foldl num_max x ys"
    by (simp add: Math_max_def Cons)
  also have "\<dots> = foldl num_max (Num (num_val x)) ys" using x by simp
  also have "\<dots> = Num (Max (insert (num_val x) (num_val ` set ys)))"
    by (rule foldl_num_max_finite[OF ys])
  finally show ?thesis by (simp add: Cons)
qed

text \<open>
  C4. When the ids select a non-empty list of datasets, the dataset that
  \<^verbatim>\<open>mergeDatasets\<close> creates and puts in front of the collection has, in the
  arithmetic of the platform, whatever its rounding is: the sum of the selected sizes as
  its size, the maximum of the selected column counts as its columns, and the mean of
  the selected null percentages as its null percentage. For two selected datasets
  \<^verbatim>\<open>A\<close> and \<^verbatim>\<open>B\<close> these are \<^verbatim>\<open>A.size + B.size\<close>, \<^verbatim>\<open>Math.max(A.columns, B.columns)\<close>
  and \<^verbatim>\<open>(A.null_percentage + B.null_percentage) / 2\<close>. Where the partial sums of
  finite sizes are doubles, as for row counts, the size is their sum in the reals; the
  maximum of finite column counts is their maximum in the reals; and where the partial
  sums of finite null percentages are doubles, the null percentage is their real sum
  divided by their number, rounded once.
\<close>

theorem mergeDatasets_fields:
  assumes sel: "selected = filter (\<lambda>d. d_id d \<in> set datasetIds) (datasets st)"
    and ne: "selected \<noteq> []"
    and dbl: "\<forall>d\<in>set selected. is_double fl (d_size d) \<and> is_double fl (d_null_percentage d)"
    and m: "merged = fst (mergeDatasets fl clk datasetIds newName st)"
  shows "d_size merged = js_sum fl (map d_size selected)
     \<and> d_columns merged = js_maximum (map d_columns selected)
     \<and> d_null_percentage merged = js_mean fl (map d_null_percentage selected)
     \<and> (\<forall>A B. selected = [A, B]
          \<longrightarrow> d_size merged = num_add fl (d_size A) (d_size B)
            \<and> d_columns merged = num_max (d_columns A) (d_columns B)
            \<and> d_null_percentage merged
                = num_div_length fl (num_add fl (d_null_percentage A) (d_null_percentage B)) 2)
     \<and> ((\<forall>d\<in>set selected. is_Num (d_size d))
          \<and> (\<forall>k. 0 < k \<and> k \<le> length selected
                \<longrightarrow> fl (\<Sum>d\<leftarrow>take k selected. num_val (d_size d))
                    = Num (\<Sum>d\<leftarrow>take k selected. num_val (d_size d)))
          \<longrightarrow> d_size merged = Num (\<Sum>d\<leftarrow>selected. num_val (d_size d)))
     \<and> ((\<forall>d\<in>set selected. is_Num (d_columns d))
          \<longrightarrow> d_columns merged = Num (Max ((\<lambda>d. num_val (d_columns d)) ` set selected)))
     \<and> ((\<forall>d\<in>set selected. is_Num (d_null_percentage d))
          \<and> (\<forall>k. 0 < k \<and> k \<le> length selected
                \<longrightarrow> fl (\<Sum>d\<leftarrow>take k selected. num_val (d_null_percentage d))
                    = Num (\<Sum>d\<leftarrow>take k selected. num_val (d_null_percentage d)))
          \<longrightarrow> d_null_percentage merged
              = fl ((\<Sum>d\<leftarrow>selected. num_val (d_null_percentage d)) / real (length selected)))
     \<and> datasets (snd (mergeDatasets fl clk datasetIds newName st)) = merged # datasets st"
proof -
  have size_eq: "d_size merged = foldl (num_add fl) (Num 0) (map d_size selected)"
    and col_eq: "d_columns merged = Math_max (map d_columns selected)"
    and null_eq: "d_null_percentage merged =
        num_div_length fl (foldl (num_add fl) (Num 0) (map d_null_percentage selected))
          (length selected)"
    and ds_eq: "datasets (snd (mergeDatasets fl clk datasetIds newName st)) = merged # datasets st"
    unfolding m sel by (simp_all add: mergeDatasets_def Let_def foldl_map)
  have hd_size: "is_double fl (hd (map d_size selected))"
    and hd_null: "is_double fl (hd (map d_null_percentage selected))"
    using ne dbl by (cases selected; simp)+
  have ne': "map d_size selected \<noteq> []" "map d_null_percentage selected \<noteq> []"
    using ne by simp_all
  have s1: "d_size merged = js_sum fl (map d_size selected)"
    using size_eq foldl_from_zero[OF ne'(1) hd_size] by simp
  have c1: "d_columns merged = js_maximum (map d_columns selected)"
    using col_eq by (simp add: Math_max_js)
  have n1: "d_null_percentage merged = js_mean fl (map d_null_percentage selected)"
    using null_eq foldl_from_zero[OF ne'(2) hd_null] by (simp add: js_mean_def)
  have pair_case: "d_size merged = num_add fl (d_size A) (d_size B)
      \<and> d_columns merged = num_max (d_columns A) (d_columns B)
      \<and> d_null_percentage merged
          = num_div_length fl (num_add fl (d_null_percentage A) (d_null_percentage B)) 2"
    if "selected = [A, B]" for A B
    using that s1 c1 n1 by (simp add: js_mean_def numeral_2_eq_2)
  have len: "length selected \<noteq> 0" using ne by simp
  have s2: "d_size merged = Num (\<Sum>d\<leftarrow>selected. num_val (d_size d))"
    if "\<forall>d\<in>set selected. is_Num (d_size d)"
      and "\<forall>k. 0 < k \<and> k \<le> length selected
                \<longrightarrow> fl (\<Sum>d\<leftarrow>take k selected. num_val (d_size d))
                    = Num (\<Sum>d\<leftarrow>take k selected. num_val (d_size d))"
    using foldl_num_add_exact[of "map d_size selected" fl 0] that size_eq
    by (simp add: take_map comp_def)
  have c2: "d_columns merged = Num (Max ((\<lambda>d. num_val (d_columns d)) ` set selected))"
    if "\<forall>d\<in>set selected. is_Num (d_columns d)"
  proof -
    have "map d_columns selected \<noteq> []" "\<forall>x\<in>set (map d_columns selected). is_Num x"
      using ne that by simp_all
    from Math_max_finite[OF this] show ?thesis
      using col_eq by (simp add: image_image)
  qed
  have n2: "d_null_percentage merged
              = fl ((\<Sum>d\<leftarrow>selected. num_val (d_null_percentage d)) / real (length selected))"
    if "\<forall>d\<in>set selected. is_Num (d_null_percentage d)"
      and "\<forall>k. 0 < k \<and> k \<le> length selected
                \<longrightarrow> fl (\<Sum>d\<leftarrow>take k selected. num_val (d_null_percentage d))
                    = Num (\<Sum>d\<leftarrow>take k selected. num_val (d_null_percentage d))"
    using foldl_num_add_exact[of "map d_null_percentage selected" fl 0] that null_eq len
    by (simp add: take_map comp_def)
  from s1 c1 n1 pair_case s2 c2 n2 ds_eq show ?thesis by blast
qed

lemma ex_shop_selected:
  "filter (\<lambda>d. d_id d \<in> set [''d1'', ''d2'']) (datasets ex_shop) = [ex_sales, ex_customers]"
  by (simp add: ex_shop_def ex_sales_def ex_customers_def)

theorem mergeDatasets_fields_witness:
  "d_size (fst (mergeDatasets exact ex_clock [''d1'', ''d2''] ''all.csv'' ex_shop)) = Num 1500
   \<and> d_columns (fst (mergeDatasets exact ex_clock [''d1'', ''d2''] ''all.csv'' ex_shop)) = Num 8
   \<and> d_null_percentage (fst (mergeDatasets exact ex_clock [''d1'', ''d2''] ''all.csv'' ex_shop))
       = Num 2
   \<and> num_add exact (d_size ex_sales) (d_size ex_customers) = Num 1500
   \<and> num_max (d_columns ex_sales) (d_columns ex_customers) = Num 8
   \<and> num_div_length exact
        (num_add exact (d_null_percentage ex_sales) (d_null_percentage ex_customers)) 2 = Num 2"
proof -
  have ne: "[ex_sales, ex_customers] \<noteq> []" by simp
  have dbl: "\<forall>d\<in>set [ex_sales, ex_customers].
      is_double exact (d_size d) \<and> is_double exact (d_null_percentage d)"
    by (simp add: ex_sales_def ex_customers_def exact_def)
  show ?thesis
    using mergeDatasets_fields[where fl=exact and clk=ex_clock and newName="''all.csv''",
        OF ex_shop_selected[symmetric] ne dbl refl]
    by (simp add: ex_sales_def ex_customers_def exact_def js_mean_def)
qed

section \<open>The persistent store adapter: round trip and failures\<close>

lemma setItem_result:
  "setItem ls key v =
     (if ls_denied ls then Inl SecurityError
      else if has_room ls key v
           then Inr (ls\<lparr>ls_items := (key, v) # filter (\<lambda>kv. fst kv \<noteq> key) (ls_items ls)\<rparr>)
           else Inl QuotaExceededError)"
  by (simp add: setItem_def has_room_def Let_def not_less)

lemma saveToStorage_writes:
  assumes "stringify json X = Inr saved" "\<not> ls_denied (storage br)" "has_room (storage br) key saved"
  shows "getItem (storage (saveToStorage json key X br)) key = Inr (Some saved)"
  using assms
  by (simp add: saveToStorage_def saveToStorage_try_def setItem_result getItem_def)

lemma saveToStorage_throws_iff:
  assumes "stringify json X = Inr saved"
  shows "(\<exists>err. saveToStorage_try json key X br = Inl err)
         \<longleftrightarrow> ls_denied (storage br) \<or> \<not> has_room (storage br) key saved"
  using assms by (simp add: saveToStorage_try_def setItem_result)

lemma saveToStorage_failed:
  assumes "saveToStorage_try json key X br = Inl err"
  shows "storage (saveToStorage json key X br) = storage br"
    and "fst (loadFromStorage json k dflt (saveToStorage json key X br))
         = fst (loadFromStorage json k dflt br)"
  using assms
  by (simp_all add: saveToStorage_def loadFromStorage_def loadFromStorage_try_def
      split: sum.splits)

text \<open>
  C7, amended. When the storage is accessible and has room for the text of a
  serializable value, saving the value under a key and loading that key gives the value
  back. Loading a key under which nothing is stored gives the default. Neither function
  lets an error out. The \<^verbatim>\<open>try\<close> block of \<^verbatim>\<open>saveToStorage\<close> throws, for a value
  that has a text, exactly when the storage is denied or has no room; the storage is
  then left as it was, so that loading gives what it gave before the save. When the
  \<^verbatim>\<open>try\<close> block of \<^verbatim>\<open>loadFromStorage\<close> throws, on access or on parsing, the default
  is returned.
\<close>

theorem storage_roundtrip:
  "(\<forall>saved. serializable json X \<and> stringify json X = Inr saved
        \<and> \<not> ls_denied (storage br) \<and> has_room (storage br) key saved
       \<longrightarrow> fst (loadFromStorage json key dflt (saveToStorage json key X br)) = X)
   \<and> (map_of (ls_items (storage br)) key = None \<longrightarrow> fst (loadFromStorage json key dflt br) = dflt)
   \<and> (\<forall>saved. stringify json X = Inr saved
         \<longrightarrow> ((\<exists>err. saveToStorage_try json key X br = Inl err)
              \<longleftrightarrow> ls_denied (storage br) \<or> \<not> has_room (storage br) key saved))
   \<and> (\<forall>err. saveToStorage_try json key X br = Inl err
         \<longrightarrow> storage (saveToStorage json key X br) = storage br
           \<and> fst (loadFromStorage json key dflt (saveToStorage json key X br))
               = fst (loadFromStorage json key dflt br))
   \<and> (\<forall>err. loadFromStorage_try json key dflt br = Inl err
         \<longrightarrow> fst (loadFromStorage json key dflt br) = dflt)"
proof -
  have a: "fst (loadFromStorage json key dflt (saveToStorage json key X br)) = X"
    if "serializable json X" "stringify json X = Inr saved"
      "\<not> ls_denied (storage br)" "has_room (storage br) key saved" for saved
  proof -
    from that(1,2) have "saved \<noteq> []" "parse json saved = Inr X"
      by (simp_all add: serializable_def)
    with saveToStorage_writes[OF that(2,3,4)] show ?thesis
      by (simp add: loadFromStorage_def loadFromStorage_try_def)
  qed
  have b: "fst (loadFromStorage json key dflt br) = dflt"
    if "map_of (ls_items (storage br)) key = None"
    using that by (simp add: loadFromStorage_def loadFromStorage_try_def getItem_def)
  have c: "(\<exists>err. saveToStorage_try json key X br = Inl err)
              \<longleftrightarrow> ls_denied (storage br) \<or> \<not> has_room (storage br) key saved"
    if "stringify json X = Inr saved" for saved
    by (rule saveToStorage_throws_iff[OF that])
  have d: "storage (saveToStorage json key X br) = storage br
           \<and> fst (loadFromStorage json key dflt (saveToStorage json key X br))
               = fst (loadFromStorage json key dflt br)"
    if "saveToStorage_try json key X br = Inl err" for err
    using saveToStorage_failed[OF that] by simp
  have e: "fst (loadFromStorage json key dflt br) = dflt"
    if "loadFromStorage_try json key dflt br = Inl err" for err
    using that by (simp add: loadFromStorage_def)
  from a b c d e show ?thesis by blast
qed

lemma ex_json_text:
  "stringify ex_json [True, False] = Inr ''[true,false]''"
  "serializable ex_json [True, False]"
  "stringify ex_json [True] = Inr ''[true]''"
  by (simp_all add: ex_json_def serializable_def)

lemma ex_browser_room:
  "\<not> ls_denied (storage ex_browser)"
  "has_room (storage ex_browser) ''ml_dashboard_flags'' ''[true,false]''"
  "map_of (ls_items (storage ex_browser)) ''ml_dashboard_flags'' = None"
  by (simp_all add: ex_browser_def has_room_def storage_used_def)

theorem storage_roundtrip_witness:
  "fst (loadFromStorage ex_json ''ml_dashboard_flags'' []
          (saveToStorage ex_json ''ml_dashboard_flags'' [True, False] ex_browser)) = [True, False]
   \<and> fst (loadFromStorage ex_json ''ml_dashboard_flags'' [True] ex_browser) = [True]
   \<and> fst (loadFromStorage ex_json ''other'' [True] ex_browser_denied) = [True]
   \<and> storage (saveToStorage ex_json ''other'' [True] ex_browser_denied) = storage ex_browser_denied"
proof -
  have lfail: "loadFromStorage_try ex_json ''other'' [True] ex_browser_denied = Inl SecurityError"
    by (simp add: loadFromStorage_try_def getItem_def ex_browser_denied_def)
  have sfail: "saveToStorage_try ex_json ''other'' [True] ex_browser_denied = Inl SecurityError"
    by (simp add: saveToStorage_try_def setItem_def ex_browser_denied_def ex_json_def)
  show ?thesis
    using storage_roundtrip[of ex_json "[True, False]" ex_browser "''ml_dashboard_flags''" "[]"]
      storage_roundtrip[of ex_json "[True]" ex_browser "''ml_dashboard_flags''" "[True]"]
      storage_roundtrip[of ex_json "[True]" ex_browser_denied "''other''" "[True]"]
      ex_json_text ex_browser_room lfail sfail
    by blast
qed

text \<open>
  On a storage that holds an older value and has no room for the new text, saving a
  serializable value and loading it gives the older value.
\<close>

theorem storage_roundtrip_counterexample:
  "serializable ex_json [True, False]
   \<and> fst (loadFromStorage ex_json ''ml_dashboard_flags'' []
           (saveToStorage ex_json ''ml_dashboard_flags'' [True, False] ex_browser_full)) = [True]"
proof -
  note ser = ex_json_text(2)
  have full: "saveToStorage_try ex_json ''ml_dashboard_flags'' [True, False] ex_browser_full
              = Inl QuotaExceededError"
    by (simp add: saveToStorage_try_def ex_json_text setItem_result has_room_def storage_used_def
        ex_browser_full_def)
  have old: "fst (loadFromStorage ex_json ''ml_dashboard_flags'' [] ex_browser_full) = [True]"
    by (simp add: loadFromStorage_def loadFromStorage_try_def getItem_def ex_browser_full_def
        ex_json_def)
  from ser saveToStorage_failed(2)[OF full] old show ?thesis by simp
qed

section \<open>The sync reconciler: pending changes, calls and errors\<close>

lemma syncPromises_nonempty:
  "syncPromises md = filter (\<lambda>dataType. 0 < collection_length md dataType) sync_collections"
  by (simp add: syncPromises_def sync_collections_def collection_length_def)

lemma concat_rejected:
  assumes "\<forall>c\<in>set cs. snd c = simulateServerSync (dr (fst c)) (fst c)"
  shows "concat (map rejected_message cs)
         = map sync_failure_message (filter (call_fails dr) (map fst cs))"
  using assms
proof (induction cs)
  case Nil
  then show ?case by simp
next
  case (Cons c cs)
  obtain dataType delay outcome where c: "c = (dataType, delay, outcome)"
    by (cases c) auto
  with Cons.prems have "(delay, outcome) = simulateServerSync (dr dataType) dataType" by simp
  then have "rejected_message c
      = (if call_fails dr dataType then [sync_failure_message dataType] else [])"
    by (auto simp: c simulateServerSync_def call_fails_def sync_failure_message_def)
  with Cons c show ?case by simp
qed

lemma settled_calls_shape:
  "\<forall>c\<in>set (settled_calls dr issued). snd c = simulateServerSync (dr (fst c)) (fst c)"
  by (auto simp: settled_calls_def)

lemma settled_calls_all:
  "mset (map fst (settled_calls dr issued)) = mset issued"
proof -
  have "mset (settled_calls dr issued)
        = mset (map (\<lambda>dataType. (dataType, simulateServerSync (dr dataType) dataType)) issued)"
    by (simp add: settled_calls_def)
  then have "image_mset fst (mset (settled_calls dr issued))
        = image_mset fst (mset (map (\<lambda>dataType. (dataType, simulateServerSync (dr dataType) dataType)) issued))"
    by simp
  then show ?thesis by (simp add: image_mset.compositionality comp_def)
qed

lemma sync_errors_eq:
  "sync_errors dr md
   = map sync_failure_message (filter (call_fails dr) (map fst (settled_calls dr (syncPromises md))))"
  unfolding sync_errors_def
  by (rule concat_rejected[OF settled_calls_shape])

lemma sync_errors_empty_iff:
  "sync_errors dr md = [] \<longleftrightarrow> \<not> (\<exists>dataType\<in>set (syncPromises md). call_fails dr dataType)"
proof -
  have "set (map fst (settled_calls dr (syncPromises md))) = set (syncPromises md)"
    using settled_calls_all[of dr "syncPromises md"] by (metis set_mset_mset)
  then show ?thesis
    by (auto simp: sync_errors_eq filter_empty_conv)
qed

text \<open>
  C2. In a cycle that \<^verbatim>\<open>triggerSync\<close> runs (it was not already syncing): if at least
  one of the calls it issued fails, \<^verbatim>\<open>pendingChanges\<close> after the cycle is what it was
  in the status the final update was applied to, that is, just before the cycle
  completed; if no call fails, it is 0.
\<close>

theorem triggerSync_pendingChanges:
  assumes "\<not> isSyncing (syncStatus w)"
  shows "pendingChanges (syncStatus (triggerSync env w)) =
     (if \<exists>dataType\<in>set (syncPromises (mockData w)). call_fails (draws env) dataType
      then pendingChanges (during env ((syncStatus w)\<lparr>isSyncing := True, syncErrors := []\<rparr>))
      else 0)"
proof (cases "sync_errors (draws env) (mockData w) = []")
  case True
  then have none: "\<not> (\<exists>dataType\<in>set (syncPromises (mockData w)). call_fails (draws env) dataType)"
    by (simp add: sync_errors_empty_iff)
  show ?thesis
    using assms True none
    by (simp add: triggerSync_def Let_def split: prod.splits option.splits)
next
  case False
  then have some: "\<exists>dataType\<in>set (syncPromises (mockData w)). call_fails (draws env) dataType"
    by (simp add: sync_errors_empty_iff)
  show ?thesis
    using assms False some
    by (simp add: triggerSync_def Let_def)
qed

lemma ex_shop_promises: "syncPromises ex_shop = sync_collections"
  by (simp add: syncPromises_def sync_collections_def ex_shop_def)

theorem triggerSync_pendingChanges_witness:
  "pendingChanges (syncStatus (triggerSync ex_env_fail ex_world)) = 4
   \<and> pendingChanges (syncStatus (triggerSync ex_env_ok ex_world)) = 0"
proof -
  have idle: "\<not> isSyncing (syncStatus ex_world)"
    by (simp add: ex_world_def ex_status_def)
  have f: "\<exists>dataType\<in>set (syncPromises (mockData ex_world)). call_fails (draws ex_env_fail) dataType"
    by (simp add: ex_world_def ex_shop_promises sync_collections_def call_fails_def ex_env_fail_def)
  have g: "\<not> (\<exists>dataType\<in>set (syncPromises (mockData ex_world)). call_fails (draws ex_env_ok) dataType)"
    by (simp add: ex_world_def ex_shop_promises sync_collections_def call_fails_def ex_env_ok_def)
  have p: "pendingChanges (during ex_env_fail ((syncStatus ex_world)\<lparr>isSyncing := True, syncErrors := []\<rparr>)) = 4"
    by (simp add: ex_env_fail_def markDataChanged_def ex_world_def ex_status_def)
  show ?thesis
    using triggerSync_pendingChanges[OF idle, of ex_env_fail]
      triggerSync_pendingChanges[OF idle, of ex_env_ok] f g p
    by simp
qed


lemma syncPromises_distinct: "distinct (syncPromises md)"
  by (simp add: syncPromises_nonempty sync_collections_def)

text \<open>
  C3, amended. A cycle issues one call for each of the five collections that is not
  empty, and none for an empty one; every issued call settles, whatever the outcomes
  of the others. When some call fails, or the success-alert bookkeeping does not throw,
  \<^verbatim>\<open>syncErrors\<close> at the end is exactly the failure messages of this cycle's calls, in
  the order the calls settled, whatever it held before. When no call fails and reading
  or writing the alert timestamp in \<^verbatim>\<open>localStorage\<close> throws, \<^verbatim>\<open>syncErrors\<close> is
  the single message \<^verbatim>\<open>Sync failed: ...\<close> of the \<^verbatim>\<open>catch\<close> block.
\<close>

theorem triggerSync_calls_and_errors:
  assumes "\<not> isSyncing (syncStatus w)"
  shows "syncPromises (mockData w)
           = filter (\<lambda>dataType. 0 < collection_length (mockData w) dataType) sync_collections
     \<and> distinct (syncPromises (mockData w))
     \<and> mset (map fst (settled_calls (draws env) (syncPromises (mockData w))))
           = mset (syncPromises (mockData w))
     \<and> ((\<exists>dataType\<in>set (syncPromises (mockData w)). call_fails (draws env) dataType)
          \<or> fst (success_alert env (mockData w) (localStore w)) = None
         \<longrightarrow> syncErrors (syncStatus (triggerSync env w))
               = map sync_failure_message
                   (filter (call_fails (draws env))
                      (map fst (settled_calls (draws env) (syncPromises (mockData w))))))
     \<and> (\<forall>err. \<not> (\<exists>dataType\<in>set (syncPromises (mockData w)). call_fails (draws env) dataType)
              \<and> fst (success_alert env (mockData w) (localStore w)) = Some err
         \<longrightarrow> syncErrors (syncStatus (triggerSync env w)) = [''Sync failed: '' @ error_message err])"
proof -
  let ?fails = "\<exists>dataType\<in>set (syncPromises (mockData w)). call_fails (draws env) dataType"
  let ?msgs = "map sync_failure_message
                 (filter (call_fails (draws env))
                    (map fst (settled_calls (draws env) (syncPromises (mockData w)))))"
  have errs: "sync_errors (draws env) (mockData w) = ?msgs"
    by (rule sync_errors_eq)
  have some_fail: "syncErrors (syncStatus (triggerSync env w)) = ?msgs" if ?fails
  proof -
    from that have "sync_errors (draws env) (mockData w) \<noteq> []"
      by (simp add: sync_errors_empty_iff)
    then show ?thesis
      using assms errs by (simp add: triggerSync_def Let_def)
  qed
  have quiet: "syncErrors (syncStatus (triggerSync env w)) = ?msgs"
    if "\<not> ?fails" "fst (success_alert env (mockData w) (localStore w)) = None"
  proof -
    from that(1) have "sync_errors (draws env) (mockData w) = []"
      by (simp add: sync_errors_empty_iff)
    then show ?thesis
      using assms errs that(2)
      by (cases "success_alert env (mockData w) (localStore w)") (simp add: triggerSync_def Let_def)
  qed
  have thrown: "syncErrors (syncStatus (triggerSync env w)) = [''Sync failed: '' @ error_message err]"
    if "\<not> ?fails" "fst (success_alert env (mockData w) (localStore w)) = Some err" for err
  proof -
    from that(1) have "sync_errors (draws env) (mockData w) = []"
      by (simp add: sync_errors_empty_iff)
    then show ?thesis
      using assms that(2)
      by (cases "success_alert env (mockData w) (localStore w)") (simp add: triggerSync_def Let_def)
  qed
  from some_fail quiet thrown syncPromises_nonempty syncPromises_distinct settled_calls_all
  show ?thesis by blast
qed

lemma ex_settled_fail:
  "map fst (settled_calls (draws ex_env_fail) sync_collections)
     = [''pipelines'', ''alerts'', ''experiments'', ''external_connections'', ''datasets'']"
  by (simp add: settled_calls_def sync_collections_def ex_env_fail_def simulateServerSync_def)

lemma ex_success_alert_ok:
  "fst (success_alert ex_env_ok (mockData ex_world) (localStore ex_world)) = None"
  by (simp add: success_alert_def shouldShowSyncAlert_def getItem_def markSyncAlertShown_def
      setItem_def storage_used_def ex_world_def ex_env_ok_def ex_clock_def)

theorem triggerSync_calls_and_errors_witness:
  "syncErrors (syncStatus (triggerSync ex_env_fail ex_world))
     = [''Failed to sync datasets: Network timeout'']
   \<and> syncErrors (syncStatus (triggerSync ex_env_ok ex_world)) = []
   \<and> syncPromises (mockData ex_world) = sync_collections"
proof -
  have idle: "\<not> isSyncing (syncStatus ex_world)"
    by (simp add: ex_world_def ex_status_def)
  have md: "mockData ex_world = ex_shop" by (simp add: ex_world_def)
  have f: "\<exists>dataType\<in>set (syncPromises (mockData ex_world)). call_fails (draws ex_env_fail) dataType"
    by (simp add: md ex_shop_promises sync_collections_def call_fails_def ex_env_fail_def)
  have m1: "map sync_failure_message (filter (call_fails (draws ex_env_fail))
              (map fst (settled_calls (draws ex_env_fail) (syncPromises (mockData ex_world)))))
            = [''Failed to sync datasets: Network timeout'']"
    by (simp add: md ex_shop_promises ex_settled_fail)
       (simp add: call_fails_def ex_env_fail_def sync_failure_message_def)
  have m2: "map sync_failure_message (filter (call_fails (draws ex_env_ok))
              (map fst (settled_calls (draws ex_env_ok) (syncPromises (mockData ex_world))))) = []"
    by (simp add: call_fails_def ex_env_ok_def)
  show ?thesis
    using triggerSync_calls_and_errors[OF idle, of ex_env_fail]
      triggerSync_calls_and_errors[OF idle, of ex_env_ok] f ex_success_alert_ok m1 m2
    by (simp add: md ex_shop_promises)
qed

text \<open>
  With the storage denied and every call succeeding, no call leaves a failure
  message, yet \<^verbatim>\<open>syncErrors\<close> is not empty after the cycle.
\<close>

lemma ex_success_alert_denied:
  "success_alert ex_env_ok (mockData ex_world_denied) (localStore ex_world_denied)
     = (Some SecurityError, mockData ex_world_denied, localStore ex_world_denied)"
  by (simp add: success_alert_def shouldShowSyncAlert_def getItem_def ex_world_denied_def)

theorem triggerSync_calls_and_errors_counterexample:
  "\<not> isSyncing (syncStatus ex_world_denied)
   \<and> filter (call_fails (draws ex_env_ok)) (syncPromises (mockData ex_world_denied)) = []
   \<and> syncErrors (syncStatus (triggerSync ex_env_ok ex_world_denied))
       = [''Sync failed: '' @ error_message SecurityError]"
proof -
  have idle: "\<not> isSyncing (syncStatus ex_world_denied)"
    by (simp add: ex_world_denied_def ex_status_def)
  have none: "filter (call_fails (draws ex_env_ok)) (syncPromises (mockData ex_world_denied)) = []"
    by (simp add: call_fails_def ex_env_ok_def)
  then have "\<not> (\<exists>dataType\<in>set (syncPromises (mockData ex_world_denied)).
                 call_fails (draws ex_env_ok) dataType)"
    by (simp add: filter_empty_conv)
  then have e: "sync_errors (draws ex_env_ok) (mockData ex_world_denied) = []"
    by (simp add: sync_errors_empty_iff)
  have "syncErrors (syncStatus (triggerSync ex_env_ok ex_world_denied))
       = [''Sync failed: '' @ error_message SecurityError]"
    using idle e by (simp add: triggerSync_def Let_def ex_success_alert_denied)
  with idle none show ?thesis by simp
qed

section \<open>The simulators: ticks, stopping and completion alerts\<close>

lemma tick_pipeline_other:
  "p_id p \<noteq> pid \<or> p_status p \<noteq> Running \<Longrightarrow> tick_pipeline pid clk dr p = (p, False)"
  by (auto simp: tick_pipeline_def)

lemma tick_pipeline_running:
  assumes "p_id p = pid" "p_status p = Running"
  shows "tick_pipeline pid clk dr p =
     (if 100 \<le> p_progress p + progress_draw dr * 10
      then (p\<lparr>p_progress := 100, p_status := Completed,
              p_model_accuracy :=
                Some (case finalBaseAccuracy (p_algorithm p) of
                        None \<Rightarrow> NaN
                      | Some finalBase \<Rightarrow>
                          Num (max 0.75 (min 0.98 (finalBase + (final_draw dr - 0.5) * 0.08)))),
              p_data_drift_score := Some (max 0.02 (min 0.35 (drift_draw dr * 0.25))),
              p_last_run := Some (now_iso clk)\<rparr>, True)
      else (p\<lparr>p_progress := p_progress p + progress_draw dr * 10,
              p_model_accuracy :=
                (if 20 < p_progress p + progress_draw dr * 10
                 then Some (case baseAccuracy (p_algorithm p) of
                              None \<Rightarrow> NaN
                            | Some base \<Rightarrow>
                                Num (max 0.5 (min 0.98
                                  (base * (0.7 + 0.3 * ((p_progress p + progress_draw dr * 10 - 20) / 80))
                                   + (variability_draw dr - 0.5) * 0.1))))
                 else p_model_accuracy p)\<rparr>, False))"
proof (cases "100 \<le> p_progress p + progress_draw dr * 10")
  case True
  then have "min 100 (p_progress p + progress_draw dr * 10) = 100" by simp
  then show ?thesis
    using assms True by (simp add: tick_pipeline_def Let_def cong: option.case_cong)
next
  case False
  then have "min 100 (p_progress p + progress_draw dr * 10) = p_progress p + progress_draw dr * 10"
    by simp
  then show ?thesis
    using assms False by (simp add: tick_pipeline_def Let_def cong: option.case_cong)
qed

lemma tick_pipeline_algorithm [simp]:
  "p_algorithm (fst (tick_pipeline pid clk dr p)) = p_algorithm p"
  by (simp add: tick_pipeline_def Let_def)


text \<open>
  An algorithm named like an inherited property has no base accuracy that is a number,
  and the tick that completes its run stores \<^verbatim>\<open>NaN\<close> as the accuracy.
\<close>

lemma inherited_key_accuracy:
  "finalBaseAccuracy (Some ''toString'') = None"
  "p_model_accuracy (fst (tick_pipeline ''p1'' ex_clock (ex_draws_high 0)
      ((ex_pipeline ''p1'' ''Sales Forecasting'' ''d1'' Running 95)\<lparr>p_algorithm := Some ''toString''\<rparr>)))
     = Some NaN"
proof -
  show a: "finalBaseAccuracy (Some ''toString'') = None"
    by (simp add: finalBaseAccuracy_def table_or_default_def algorithm_key_def
        object_prototype_keys_def)
  show "p_model_accuracy (fst (tick_pipeline ''p1'' ex_clock (ex_draws_high 0)
      ((ex_pipeline ''p1'' ''Sales Forecasting'' ''d1'' Running 95)\<lparr>p_algorithm := Some ''toString''\<rparr>)))
     = Some NaN"
    by (simp add: tick_pipeline_running a ex_pipeline_def ex_draws_high_def)
qed

lemma tick_pipeline_id [simp]: "p_id (fst (tick_pipeline pid clk dr p)) = p_id p"
  by (simp add: tick_pipeline_def Let_def)

lemma interval_callback_length [simp]:
  "length (fst (interval_callback pid clk rnd prev)) = length prev"
  by (simp add: interval_callback_def Let_def)

lemma interval_callback_nth:
  "i < length prev \<Longrightarrow>
   fst (interval_callback pid clk rnd prev) ! i = fst (tick_pipeline pid clk (rnd i) (prev ! i))"
  by (simp add: interval_callback_def Let_def nth_enumerate_eq)


text \<open>
  C5. One firing of the interval, applied to a list of pipelines: a pipeline that is
  running, with progress within the model's range (at most 100), has afterwards a
  progress that is not smaller and still at most 100; and if the firing leaves it
  completed, its progress is exactly 100. \<^verbatim>\<open>Math.random()\<close> is never negative.
\<close>

theorem tick_progress_monotone:
  assumes "i < length prev"
    and "p_status (prev ! i) = Running"
    and "p_progress (prev ! i) \<le> 100"
    and "0 \<le> progress_draw (rnd i)"
  shows "p_progress (prev ! i) \<le> p_progress (fst (interval_callback pid clk rnd prev) ! i)
     \<and> p_progress (fst (interval_callback pid clk rnd prev) ! i) \<le> 100
     \<and> (p_status (fst (interval_callback pid clk rnd prev) ! i) = Completed
          \<longrightarrow> p_progress (fst (interval_callback pid clk rnd prev) ! i) = 100)"
proof (cases "p_id (prev ! i) = pid")
  case True
  show ?thesis
    using assms
    by (simp add: interval_callback_nth tick_pipeline_running[OF True assms(2)])
next
  case False
  then show ?thesis
    using assms by (simp add: interval_callback_nth tick_pipeline_other)
qed

theorem tick_progress_monotone_witness:
  "p_progress (pipelines (store ex_view_running) ! 0) = 95
   \<and> p_progress (fst (interval_callback ''p1'' ex_clock ex_draws_low
                        (pipelines (store ex_view_running))) ! 0) = 97.5
   \<and> p_progress (fst (interval_callback ''p1'' ex_clock ex_draws_high
                        (pipelines (store ex_view_running))) ! 0) = 100
   \<and> p_status (fst (interval_callback ''p1'' ex_clock ex_draws_high
                        (pipelines (store ex_view_running))) ! 0) = Completed"
proof -
  have ps: "pipelines (store ex_view_running) = [ex_pipeline ''p1'' ''Sales Forecasting'' ''d1'' Running 95]"
    by (simp add: ex_view_running_def)
  have h: "0 < length (pipelines (store ex_view_running))"
    "p_status (pipelines (store ex_view_running) ! 0) = Running"
    "p_progress (pipelines (store ex_view_running) ! 0) \<le> 100"
    "0 \<le> progress_draw (ex_draws_low 0)" "0 \<le> progress_draw (ex_draws_high 0)"
    by (simp_all add: ps ex_pipeline_def ex_draws_low_def ex_draws_high_def)
  have a: "p_progress (fst (interval_callback ''p1'' ex_clock ex_draws_low
                        (pipelines (store ex_view_running))) ! 0) = 97.5"
    by (simp add: ps interval_callback_nth tick_pipeline_running ex_pipeline_def ex_draws_low_def ex_draws_high_def)
  have b: "p_status (fst (interval_callback ''p1'' ex_clock ex_draws_high
                        (pipelines (store ex_view_running))) ! 0) = Completed"
    by (simp add: ps interval_callback_nth tick_pipeline_running ex_pipeline_def ex_draws_low_def ex_draws_high_def)
  show ?thesis
    using tick_progress_monotone[OF h(1-3), of ex_draws_low "''p1''" ex_clock]
      tick_progress_monotone[OF h(1-3), of ex_draws_high "''p1''" ex_clock] h a b
    by (simp add: ps ex_pipeline_def)
qed

lemma handleStartPipeline_known:
  assumes "pid \<in> set (map p_id (pipelines (store v)))"
  shows "intervals (handleStartPipeline pid v) = intervals v @ [(next_interval v, pid)]"
    and "next_interval (handleStartPipeline pid v) = Suc (next_interval v)"
    and "map p_id (pipelines (store (handleStartPipeline pid v))) = map p_id (pipelines (store v))"
proof -
  from assms obtain q where "find (\<lambda>p. p_id p = pid) (pipelines (store v)) = Some q"
    by (cases "find (\<lambda>p. p_id p = pid) (pipelines (store v))") (auto simp: find_None_iff)
  then show "intervals (handleStartPipeline pid v) = intervals v @ [(next_interval v, pid)]"
    and "next_interval (handleStartPipeline pid v) = Suc (next_interval v)"
    and "map p_id (pipelines (store (handleStartPipeline pid v))) = map p_id (pipelines (store v))"
    by (simp_all add: handleStartPipeline_def)
qed

lemma handleStopPipeline_intervals:
  "intervals (handleStopPipeline pid v) = intervals v"
  "next_interval (handleStopPipeline pid v) = next_interval v"
  "map p_id (pipelines (store (handleStopPipeline pid v))) = map p_id (pipelines (store v))"
  by (simp_all add: handleStopPipeline_def)

text \<open>
  C8. \<^verbatim>\<open>handleStopPipeline\<close> changes the pipeline's status only. After starting
  pipeline \<^verbatim>\<open>p1\<close> and stopping it, the interval scheduled by the start is still active;
  starting it again leaves two active intervals for the same pipeline.
\<close>

theorem handleStopPipeline_keeps_interval:
  "intervals (handleStartPipeline ''p1'' ex_view) = [(0, ''p1'')]
   \<and> intervals (handleStopPipeline ''p1'' (handleStartPipeline ''p1'' ex_view)) = [(0, ''p1'')]
   \<and> intervals (handleStartPipeline ''p1''
        (handleStopPipeline ''p1'' (handleStartPipeline ''p1'' ex_view))) = [(0, ''p1''), (1, ''p1'')]"
proof -
  have k: "''p1'' \<in> set (map p_id (pipelines (store ex_view)))"
    by (simp add: ex_view_def ex_shop_def ex_forecast_def ex_pipeline_def)
  have a: "intervals (handleStartPipeline ''p1'' ex_view) = [(0, ''p1'')]"
    and n: "next_interval (handleStartPipeline ''p1'' ex_view) = 1"
    using handleStartPipeline_known(1,2)[OF k] by (simp_all add: ex_view_def)
  have k': "''p1'' \<in> set (map p_id (pipelines (store
              (handleStopPipeline ''p1'' (handleStartPipeline ''p1'' ex_view)))))"
    using k by (simp only: handleStopPipeline_intervals(3) handleStartPipeline_known(3)[OF k])
  have c: "intervals (handleStartPipeline ''p1''
        (handleStopPipeline ''p1'' (handleStartPipeline ''p1'' ex_view))) = [(0, ''p1''), (1, ''p1'')]"
    using handleStartPipeline_known(1)[OF k'] a n by (simp add: handleStopPipeline_intervals)
  from a c show ?thesis by (simp add: handleStopPipeline_intervals)
qed

lemma interval_fire_alerts: "alerts (store (interval_fire h clk rnd v)) = alerts (store v)"
  by (simp add: interval_fire_def split: option.splits prod.splits)

text \<open>
  The firing that completes a pipeline run leaves the alerts as they were.
\<close>

theorem simulator_completion_alert_counterexample:
  "p_status (pipelines (store (interval_fire 0 ex_clock ex_draws_high ex_view_running)) ! 0)
     = Completed
   \<and> p_progress (pipelines (store (interval_fire 0 ex_clock ex_draws_high ex_view_running)) ! 0)
     = 100
   \<and> alerts (store (interval_fire 0 ex_clock ex_draws_high ex_view_running))
     = alerts (store ex_view_running)"
proof -
  have ps: "pipelines (store ex_view_running) = [ex_pipeline ''p1'' ''Sales Forecasting'' ''d1'' Running 95]"
    by (simp add: ex_view_running_def)
  have m: "map_of (intervals ex_view_running) 0 = Some ''p1''"
    by (simp add: ex_view_running_def)
  have q: "pipelines (store (interval_fire 0 ex_clock ex_draws_high ex_view_running))
           = fst (interval_callback ''p1'' ex_clock ex_draws_high (pipelines (store ex_view_running)))"
    by (simp add: interval_fire_def m split: prod.splits)
  have "p_status (fst (interval_callback ''p1'' ex_clock ex_draws_high
                        (pipelines (store ex_view_running))) ! 0) = Completed"
    "p_progress (fst (interval_callback ''p1'' ex_clock ex_draws_high
                        (pipelines (store ex_view_running))) ! 0) = 100"
    by (simp_all add: ps interval_callback_nth tick_pipeline_running ex_pipeline_def ex_draws_low_def ex_draws_high_def)
  then show ?thesis unfolding q by (simp add: interval_fire_alerts)
qed

text \<open>
  C9, amended. When the timeout of the training simulator fires, every experiment
  with the given id is completed and one alert, \<^verbatim>\<open>Model training completed successfully\<close>,
  is put in front of the alerts.
\<close>

theorem training_timeout_alert:
  "alerts (training_timeout clk rnd experimentId st)
     = new_alert clk Low ''Model training completed successfully'' # alerts st
   \<and> map e_id (experiments (training_timeout clk rnd experimentId st)) = map e_id (experiments st)
   \<and> (\<forall>e\<in>set (experiments (training_timeout clk rnd experimentId st)).
         e_id e = experimentId \<longrightarrow> e_status e = ECompleted)"
proof -
  have ids: "map e_id (experiments (training_timeout clk rnd experimentId st)) = map e_id (experiments st)"
    by (auto simp: training_timeout_def intro!: nth_equalityI simp: nth_enumerate_eq)
  have st: "e_id e = experimentId \<longrightarrow> e_status e = ECompleted"
    if "e \<in> set (experiments (training_timeout clk rnd experimentId st))" for e
    using that by (auto simp: training_timeout_def split: if_splits)
  from ids st show ?thesis by (simp add: training_timeout_def)
qed

theorem training_timeout_alert_witness:
  "map a_message (alerts (training_timeout ex_clock (\<lambda>i. ex_training_draws) ''e1'' ex_shop))
     = [''Model training completed successfully'', ''Dataset sales.csv uploaded successfully'',
        ''Scheduled maintenance finished'']
   \<and> map e_status (experiments (training_timeout ex_clock (\<lambda>i. ex_training_draws) ''e1'' ex_shop))
     = [ECompleted, ERunning]"
proof -
  have "map e_status (experiments (training_timeout ex_clock (\<lambda>i. ex_training_draws) ''e1'' ex_shop))
     = [ECompleted, ERunning]"
    by (simp add: training_timeout_def ex_shop_def ex_model_def ex_churn_model_def ex_experiment_def
        enumerate_eq_zip upt_rec)
  then show ?thesis
    using training_timeout_alert[of ex_clock "\<lambda>i. ex_training_draws" "''e1''" ex_shop]
    by (simp add: new_alert_def ex_shop_def ex_alert_upload_def ex_alert_maint_def ex_alert_def)
qed

section \<open>The pipeline run simulator: completion\<close>



















end
